theory Spec2Isabelle
  imports Main "HOL-Library.Multiset" "HOL-Library.Sublist" "HOL-Library.AList"
begin

section \<open>The compatibility dashboard: data model\<close>

text \<open>
  A shallow embedding of \<^verbatim>\<open>dashboard/dashboard_builder.py\<close>: the class
  \<^verbatim>\<open>_ResultHolder\<close> with its methods \<^verbatim>\<open>_is_py_version_incompatible\<close>,
  \<^verbatim>\<open>get_result\<close>, \<^verbatim>\<open>has_issues\<close>, \<^verbatim>\<open>get_deprecated_deps\<close>,
  \<^verbatim>\<open>has_deprecated_deps\<close>, \<^verbatim>\<open>needs_update\<close> and \<^verbatim>\<open>get_statistics\<close>.
  A leading underscore of a Python name is dropped, since an Isabelle name cannot start
  with one.
\<close>

subsection \<open>Values of the library the dashboard is built on\<close>

text \<open>
  Modelled from the spec: \<^verbatim>\<open>compatibility_lib.package.Package\<close> is not part of the
  source file. A package is identified by its install name, and two packages are equal
  exactly when their install names are.
\<close>

datatype package = Package (install_name: string)

text \<open>
  Modelled from the spec: the enumeration \<^verbatim>\<open>compatibility_store.Status\<close> is not part
  of the source file. Its members are the ones the specification lists; the value of
  a member is its own name (the docstring of \<^verbatim>\<open>get_result\<close> gives
  \<^verbatim>\<open>"SUCCESS"\<close> as an example of a \<^verbatim>\<open>Status.value\<close>).
\<close>

datatype Status = UNKNOWN | SUCCESS | INSTALL_ERROR | CHECK_WARNING | UNKNOWN_ERROR

fun status_name :: "Status \<Rightarrow> string" where
  "status_name UNKNOWN = ''UNKNOWN''"
| "status_name SUCCESS = ''SUCCESS''"
| "status_name INSTALL_ERROR = ''INSTALL_ERROR''"
| "status_name CHECK_WARNING = ''CHECK_WARNING''"
| "status_name UNKNOWN_ERROR = ''UNKNOWN_ERROR''"

definition status_value :: "Status \<Rightarrow> string" where
  "status_value s = status_name s"

text \<open>
  Modelled from the spec: \<^verbatim>\<open>compatibility_store.CompatibilityResult\<close> is not part of
  the source file. The methods read four attributes of a result: the packages
  involved, the status, the details (a string or \<^verbatim>\<open>None\<close>) and the major version
  of the Python the check ran under.
\<close>

record CompatibilityResult =
  packages :: "package list"
  status :: Status
  details :: "string option"
  python_major_version :: int

text \<open>
  The module \<^verbatim>\<open>compatibility_lib.configs\<close> is not part of the source file either; its
  two tables are parameters of the model. \<^verbatim>\<open>PKG_LIST\<close> is the catalogue of install
  names. \<^verbatim>\<open>PKG_PY_VERSION_NOT_SUPPORTED\<close> is read at the keys 2 and 3 only, and the
  table holds a list of install names for each of them.
\<close>

record configs =
  PKG_LIST :: "string list"
  PKG_PY_VERSION_NOT_SUPPORTED :: "int \<Rightarrow> string list"

text \<open>
  \<^verbatim>\<open>str.lower()\<close> on the characters a status value is made of: an ASCII capital
  becomes the small letter at the same place of the alphabet; every other character
  stays.
\<close>

definition lower_char :: "char \<Rightarrow> char" where
  "lower_char c =
     (case map_of (zip ''ABCDEFGHIJKLMNOPQRSTUVWXYZ'' ''abcdefghijklmnopqrstuvwxyz'') c of
        None \<Rightarrow> c
      | Some d \<Rightarrow> d)"

definition lower :: "string \<Rightarrow> string" where
  "lower s = map lower_char s"

subsection \<open>What the dashboard builds\<close>

text \<open>
  One entry of a \<^verbatim>\<open>self_compatibility_check\<close> or
  \<^verbatim>\<open>pairwise_compatibility_check\<close> list is a dictionary with the keys
  \<^verbatim>\<open>'status'\<close> and \<^verbatim>\<open>'self'\<close> and, for an entry made from a stored result,
  \<^verbatim>\<open>'details'\<close>. \<open>entry_details = None\<close> is a dictionary without the key;
  \<open>Some None\<close> is the key bound to \<^verbatim>\<open>None\<close>. Equality of records is then
  equality of the dictionaries.
\<close>

record check_entry =
  entry_status :: string
  entry_self :: bool
  entry_details :: "string option option"

text \<open>The dictionary \<^verbatim>\<open>get_result\<close> returns.\<close>

record result =
  status_type :: string
  self_compatibility_check :: "check_entry list"
  pairwise_compatibility_check :: "check_entry list"

text \<open>The module constant \<^verbatim>\<open>SELF_SUCCESS = {'status': 'SUCCESS', 'self': True}\<close>.\<close>

definition SELF_SUCCESS :: check_entry where
  "SELF_SUCCESS = \<lparr>entry_status = ''SUCCESS'', entry_self = True, entry_details = None\<rparr>"

text \<open>
  The exception the methods can raise: a subscript \<^verbatim>\<open>d[k]\<close> of a dictionary
  that has no key \<^verbatim>\<open>k\<close>.
\<close>

datatype error = KeyError

text \<open>
  The state of a \<^verbatim>\<open>_ResultHolder\<close>. \<^verbatim>\<open>_package_to_results\<close> is a dictionary
  whose keys \<^verbatim>\<open>has_issues\<close> iterates over in their order, so it is an association
  list, looked up with \<open>map_of\<close>. \<^verbatim>\<open>_pairwise_to_results\<close> is only ever
  subscripted, with a \<^verbatim>\<open>frozenset\<close> of packages. \<^verbatim>\<open>deprecated_deps\<close> maps
  an install name to the pair of its deprecated dependencies and the flag. The
  attributes \<^verbatim>\<open>checker\<close> and \<^verbatim>\<open>store\<close> are handed to the dependency finder
  only. A dictionary holds a key once; no statement below needs that of the
  association list, so it is not required (\<open>map_of\<close> reads the first binding of a
  key, and a second turn of a loop for the same key repeats the first).
\<close>

record ResultHolder =
  package_to_results :: "(package \<times> CompatibilityResult list) list"
  pairwise_to_results :: "package set \<rightharpoonup> CompatibilityResult list"
  deprecated_deps :: "string \<rightharpoonup> (string list \<times> bool)"

section \<open>The methods\<close>

subsection \<open>\<^verbatim>\<open>_is_py_version_incompatible\<close>\<close>

text \<open>The inner loop \<^verbatim>\<open>for pkg in result.packages\<close>, for one \<open>version\<close>.\<close>

fun unsupported_loop :: "configs \<Rightarrow> CompatibilityResult \<Rightarrow> int \<Rightarrow> package list \<Rightarrow> bool" where
  "unsupported_loop cfg r version [] = False"
| "unsupported_loop cfg r version (pkg # pkgs) =
     (let major_version = python_major_version r;
          name = install_name pkg;
          unsupported = PKG_PY_VERSION_NOT_SUPPORTED cfg version
      in if major_version = version \<and> name \<in> set unsupported then True
         else unsupported_loop cfg r version pkgs)"

text \<open>The outer loop \<^verbatim>\<open>for version in [2, 3]\<close>.\<close>

fun version_loop :: "configs \<Rightarrow> CompatibilityResult \<Rightarrow> int list \<Rightarrow> bool" where
  "version_loop cfg r [] = False"
| "version_loop cfg r (version # versions) =
     (if unsupported_loop cfg r version (packages r) then True
      else version_loop cfg r versions)"

definition is_py_version_incompatible :: "configs \<Rightarrow> CompatibilityResult \<Rightarrow> bool" where
  "is_py_version_incompatible cfg r =
     (if status r = INSTALL_ERROR then version_loop cfg r [2, 3] else False)"

subsection \<open>\<^verbatim>\<open>get_result\<close>\<close>

text \<open>
  The two scans carry the list of entries built so far and the current value of the
  variable \<^verbatim>\<open>status_type\<close> (\<open>cur_type\<close> in a step; in \<open>get_result\<close> it is
  \<open>self_type\<close> after the self scan and \<open>pair_type\<close> after the pairwise scan, since
  \<open>status_type\<close> names the key of the returned dictionary). One step is the body of
  the \<^verbatim>\<open>for pr in ...\<close> loop.
\<close>

type_synonym scan_state = "check_entry list \<times> string"

definition self_step :: "configs \<Rightarrow> CompatibilityResult \<Rightarrow> scan_state \<Rightarrow> scan_state" where
  "self_step cfg pr st =
     (case st of (self_result, cur_type) \<Rightarrow>
        if \<not> is_py_version_incompatible cfg pr \<and> status pr \<noteq> SUCCESS
        then (self_result @
                [\<lparr>entry_status = status_value (status pr), entry_self = True,
                  entry_details = Some (details pr)\<rparr>],
              ''self-'' @ lower (status_value (status pr)))
        else (self_result, cur_type))"

fun self_scan :: "configs \<Rightarrow> CompatibilityResult list \<Rightarrow> scan_state \<Rightarrow> scan_state" where
  "self_scan cfg [] st = st"
| "self_scan cfg (pr # prs) st = self_scan cfg prs (self_step cfg pr st)"

definition pair_step :: "configs \<Rightarrow> CompatibilityResult \<Rightarrow> scan_state \<Rightarrow> scan_state" where
  "pair_step cfg pr st =
     (case st of (pair_result, cur_type) \<Rightarrow>
        if \<not> is_py_version_incompatible cfg pr \<and> status pr \<noteq> SUCCESS
        then (pair_result @
                [\<lparr>entry_status = status_value (status pr), entry_self = False,
                  entry_details = Some (details pr)\<rparr>],
              ''pairwise-'' @ lower (status_value (status pr)))
        else (pair_result, cur_type))"

fun pair_scan :: "configs \<Rightarrow> CompatibilityResult list \<Rightarrow> scan_state \<Rightarrow> scan_state" where
  "pair_scan cfg [] st = st"
| "pair_scan cfg (pr # prs) st = pair_scan cfg prs (pair_step cfg pr st)"

text \<open>
  The entries \<^verbatim>\<open>get_result\<close> makes up itself; none of them has the key
  \<^verbatim>\<open>'details'\<close>. \<^verbatim>\<open>Status.UNKNOWN.name\<close> and \<^verbatim>\<open>Status.SUCCESS.name\<close> are the
  names of the members.
\<close>

definition synthetic_entry :: "Status \<Rightarrow> bool \<Rightarrow> check_entry" where
  "synthetic_entry s is_self =
     \<lparr>entry_status = status_name s, entry_self = is_self, entry_details = None\<rparr>"

text \<open>
  The first statement of \<^verbatim>\<open>get_result\<close> subscripts \<^verbatim>\<open>_package_to_results\<close> with
  \<^verbatim>\<open>package_1\<close> and, unless that list is empty, with \<^verbatim>\<open>package_2\<close>; the next
  statement subscripts it with both. Nothing is returned or stored in between, so a
  missing key of either raises \<^verbatim>\<open>KeyError\<close> all the same, and the model looks both
  up first.

  The test \<^verbatim>\<open>status_type is 'self-success'\<close> compares identities. The variable
  holds the very constant it was initialised with unless a scan step or the unknown
  branch assigned to it, and every string assigned there differs from
  \<^verbatim>\<open>'self-success'\<close> (lemma \<open>self_type_not_initial\<close> below); so on every path the
  test agrees with the comparison of the strings, which is what the model writes.
\<close>

definition get_result :: "configs \<Rightarrow> ResultHolder \<Rightarrow> package \<Rightarrow> package \<Rightarrow> error + result" where
  "get_result cfg h package_1 package_2 =
     (case map_of (package_to_results h) package_1 of
        None \<Rightarrow> Inl KeyError
      | Some results_1 \<Rightarrow>
     (case map_of (package_to_results h) package_2 of
        None \<Rightarrow> Inl KeyError
      | Some results_2 \<Rightarrow>
        let st0 = (if results_1 = [] \<or> results_2 = []
                   then ([synthetic_entry UNKNOWN True], ''self-unknown'')
                   else ([], ''self-success''));
            package_results = results_1 @ results_2;
            (self_result, self_type) = self_scan cfg package_results st0
        in if package_1 = package_2 then
             Inr \<lparr>status_type = self_type,
                  self_compatibility_check =
                    (if self_result = [] then [synthetic_entry SUCCESS True] else self_result),
                  pairwise_compatibility_check = []\<rparr>
           else
             (case pairwise_to_results h {package_1, package_2} of
                None \<Rightarrow> Inl KeyError
              | Some pairwise_results \<Rightarrow>
                  let st1 = (if pairwise_results = []
                             then ([synthetic_entry UNKNOWN False], ''pairwise-unknown'')
                             else ([], self_type));
                      (pair_result, pair_type) = pair_scan cfg pairwise_results st1
                  in if pair_result = [] then
                       Inr \<lparr>status_type =
                              (if pair_type = ''self-success'' then ''pairwise-success''
                               else pair_type),
                            self_compatibility_check = self_result,
                            pairwise_compatibility_check = [synthetic_entry SUCCESS False]\<rparr>
                     else
                       Inr \<lparr>status_type = pair_type,
                            self_compatibility_check = self_result,
                            pairwise_compatibility_check = pair_result\<rparr>)))"

subsection \<open>\<^verbatim>\<open>has_issues\<close>\<close>

text \<open>
  The inner loop \<^verbatim>\<open>for result in pair_res\<close>: \<open>True\<close> when it reaches
  \<^verbatim>\<open>return True\<close>.
\<close>

fun pair_res_loop :: "bool \<Rightarrow> check_entry list \<Rightarrow> bool" where
  "pair_res_loop package_2_self_conflict [] = False"
| "pair_res_loop package_2_self_conflict (res # rest) =
     (if \<not> package_2_self_conflict \<and> entry_status res \<noteq> ''SUCCESS'' then True
      else pair_res_loop package_2_self_conflict rest)"

text \<open>
  The body of the outer loop for one \<^verbatim>\<open>package_2\<close>: an error, or whether the body
  returns \<^verbatim>\<open>True\<close> from \<^verbatim>\<open>has_issues\<close>.
\<close>

definition has_issues_body :: "configs \<Rightarrow> ResultHolder \<Rightarrow> package \<Rightarrow> package \<Rightarrow> error + bool" where
  "has_issues_body cfg h p package_2 =
     (case get_result cfg h p package_2 of
        Inl e \<Rightarrow> Inl e
      | Inr p_and_package_2_result \<Rightarrow>
     (case get_result cfg h package_2 package_2 of
        Inl e \<Rightarrow> Inl e
      | Inr package_2_self_res \<Rightarrow>
          let package_2_self_conflict =
                (SELF_SUCCESS \<notin> set (self_compatibility_check package_2_self_res));
              pair_res = pairwise_compatibility_check p_and_package_2_result
          in Inr (pair_res_loop package_2_self_conflict pair_res)))"

text \<open>The outer loop over \<^verbatim>\<open>self._package_to_results.keys()\<close>.\<close>

fun has_issues_loop :: "configs \<Rightarrow> ResultHolder \<Rightarrow> package \<Rightarrow> package list \<Rightarrow> error + bool" where
  "has_issues_loop cfg h p [] = Inr False"
| "has_issues_loop cfg h p (package_2 # rest) =
     (case has_issues_body cfg h p package_2 of
        Inl e \<Rightarrow> Inl e
      | Inr True \<Rightarrow> Inr True
      | Inr False \<Rightarrow> has_issues_loop cfg h p rest)"

definition has_issues :: "configs \<Rightarrow> ResultHolder \<Rightarrow> package \<Rightarrow> error + bool" where
  "has_issues cfg h p = has_issues_loop cfg h p (map fst (package_to_results h))"

subsection \<open>Deprecated dependencies, updates and the statistics\<close>

text \<open>
  \<^verbatim>\<open>get_deprecated_deps\<close> turns what the dependency finder yields into the
  dictionary kept in \<^verbatim>\<open>deprecated_deps\<close>. The finder is not part of the source
  file: its output is the argument, one pair \<^verbatim>\<open>(pkg_name, deps)\<close> for each
  \<^verbatim>\<open>item[0]\<close>. A later item for the same name overwrites an earlier one.
\<close>

fun deprecated_deps_loop ::
  "(string \<times> string list) list \<Rightarrow> (string \<rightharpoonup> (string list \<times> bool)) \<Rightarrow>
   (string \<rightharpoonup> (string list \<times> bool))" where
  "deprecated_deps_loop [] results = results"
| "deprecated_deps_loop ((pkg_name, deps) # items) results =
     deprecated_deps_loop items (results(pkg_name \<mapsto> (deps, deps \<noteq> [])))"

definition get_deprecated_deps ::
  "(string \<times> string list) list \<Rightarrow> (string \<rightharpoonup> (string list \<times> bool))" where
  "get_deprecated_deps found = deprecated_deps_loop found Map.empty"

definition has_deprecated_deps :: "ResultHolder \<Rightarrow> package \<Rightarrow> error + bool" where
  "has_deprecated_deps h p =
     (case deprecated_deps h (install_name p) of
        None \<Rightarrow> Inl KeyError
      | Some entry \<Rightarrow> Inr (snd entry))"

text \<open>
  The body of \<^verbatim>\<open>needs_update\<close> is \<^verbatim>\<open>pass\<close>: it returns \<^verbatim>\<open>None\<close>, which the
  \<^verbatim>\<open>if\<close> of \<^verbatim>\<open>get_statistics\<close> takes as false.
\<close>

definition needs_update :: "ResultHolder \<Rightarrow> package \<Rightarrow> bool option" where
  "needs_update h p = None"

fun truthy :: "bool option \<Rightarrow> bool" where
  "truthy None = False"
| "truthy (Some b) = b"

text \<open>
  The loop of \<^verbatim>\<open>get_statistics\<close> over the given packages, carrying the three
  counters; a \<^verbatim>\<open>KeyError\<close> of \<^verbatim>\<open>has_issues\<close> or \<^verbatim>\<open>has_deprecated_deps\<close> ends it.
\<close>

fun statistics_loop ::
  "configs \<Rightarrow> ResultHolder \<Rightarrow> package list \<Rightarrow> int \<times> int \<times> int \<Rightarrow> error + (int \<times> int \<times> int)" where
  "statistics_loop cfg h [] counts = Inr counts"
| "statistics_loop cfg h (pkg # pkgs) (total_have_conflicts, total_have_deprecated_deps, total_needs_update) =
     (case has_issues cfg h pkg of
        Inl e \<Rightarrow> Inl e
      | Inr issues \<Rightarrow>
     (case has_deprecated_deps h pkg of
        Inl e \<Rightarrow> Inl e
      | Inr deprecated \<Rightarrow>
          statistics_loop cfg h pkgs
            (if issues then total_have_conflicts + 1 else total_have_conflicts,
             if deprecated then total_have_deprecated_deps + 1 else total_have_deprecated_deps,
             if truthy (needs_update h pkg) then total_needs_update + 1 else total_needs_update)))"

definition get_statistics ::
  "configs \<Rightarrow> ResultHolder \<Rightarrow> package list \<Rightarrow> error + (int \<times> int \<times> int \<times> int)" where
  "get_statistics cfg h pkgs =
     (let total_packages = int (length (PKG_LIST cfg)) in
      case statistics_loop cfg h pkgs (0, 0, 0) of
        Inl e \<Rightarrow> Inl e
      | Inr (total_have_conflicts, total_have_deprecated_deps, total_needs_update) \<Rightarrow>
          Inr (total_packages, total_have_conflicts, total_have_deprecated_deps,
               total_needs_update))"

section \<open>Notions the statements use\<close>

text \<open>
  The test both scans of \<^verbatim>\<open>get_result\<close> apply to a stored result: it is reported
  when the version rule does not exclude it and its status is not \<^verbatim>\<open>SUCCESS\<close>.
\<close>

definition counted :: "configs \<Rightarrow> CompatibilityResult \<Rightarrow> bool" where
  "counted cfg pr \<longleftrightarrow> \<not> is_py_version_incompatible cfg pr \<and> status pr \<noteq> SUCCESS"

text \<open>The entry a scan appends for a stored result it reports.\<close>

definition reported :: "bool \<Rightarrow> CompatibilityResult \<Rightarrow> check_entry" where
  "reported is_self pr =
     \<lparr>entry_status = status_value (status pr), entry_self = is_self,
      entry_details = Some (details pr)\<rparr>"

text \<open>
  The packages a holder was built for: the keys of \<^verbatim>\<open>_package_to_results\<close>. The
  holder is complete for them when it has a list of pairwise results for every two of
  them and a deprecated-dependency entry for exactly their install names.
\<close>

definition indexed :: "ResultHolder \<Rightarrow> package set" where
  "indexed h = set (map fst (package_to_results h))"

definition index_complete :: "ResultHolder \<Rightarrow> bool" where
  "index_complete h \<longleftrightarrow>
     (\<forall>p \<in> indexed h. \<forall>q \<in> indexed h. p \<noteq> q \<longrightarrow> {p, q} \<in> dom (pairwise_to_results h)) \<and>
     dom (deprecated_deps h) = install_name ` indexed h"

text \<open>
  What \<^verbatim>\<open>has_issues\<close> computes as \<^verbatim>\<open>package_2_self_conflict\<close>: the self check of
  the package has no entry equal to \<^verbatim>\<open>SELF_SUCCESS\<close>.
\<close>

definition self_conflicted :: "configs \<Rightarrow> ResultHolder \<Rightarrow> package \<Rightarrow> bool" where
  "self_conflicted cfg h q =
     (case get_result cfg h q q of
        Inl e \<Rightarrow> False
      | Inr rq \<Rightarrow> SELF_SUCCESS \<notin> set (self_compatibility_check rq))"

text \<open>
  An entry with the key \<^verbatim>\<open>'details'\<close>: one a scan appended for a stored result, not
  one \<^verbatim>\<open>get_result\<close> made up.
\<close>

definition has_details :: "check_entry \<Rightarrow> bool" where
  "has_details e \<longleftrightarrow> entry_details e \<noteq> None"

subsection \<open>A configuration and a holder to evaluate the methods on\<close>

text \<open>
  Three packages: \<open>A\<close> installs on its own, \<open>B\<close> has no self results, and \<open>C\<close>
  fails on Python 3, gives a warning, and is not supported on Python 2.
\<close>

definition ex_cfg :: configs where
  "ex_cfg = \<lparr>PKG_LIST = [''A'', ''B'', ''C''],
             PKG_PY_VERSION_NOT_SUPPORTED = (\<lambda>v. if v = 2 then [''C''] else [])\<rparr>"

definition ex_result :: "string \<Rightarrow> Status \<Rightarrow> int \<Rightarrow> CompatibilityResult" where
  "ex_result n s v =
     \<lparr>packages = [Package n], status = s, details = None, python_major_version = v\<rparr>"

definition ex_holder :: ResultHolder where
  "ex_holder =
     \<lparr>package_to_results =
        [(Package ''A'', [ex_result ''A'' SUCCESS 3]),
         (Package ''B'', []),
         (Package ''C'', [ex_result ''C'' INSTALL_ERROR 3, ex_result ''C'' CHECK_WARNING 3,
                          ex_result ''C'' INSTALL_ERROR 2])],
      pairwise_to_results =
        [{Package ''A'', Package ''B''} \<mapsto> [],
         {Package ''A'', Package ''C''} \<mapsto> [ex_result ''A'' SUCCESS 3],
         {Package ''B'', Package ''C''} \<mapsto> [ex_result ''B'' CHECK_WARNING 3]],
      deprecated_deps =
        [''A'' \<mapsto> ([], False), ''B'' \<mapsto> ([''x''], True), ''C'' \<mapsto> ([], False)]\<rparr>"

text \<open>
  A second holder: \<open>A\<close> installs on its own, the only self result of \<open>C\<close> is the
  failure on Python 2 that the version rule excludes, and the two install together.
\<close>

definition ex_good_holder :: ResultHolder where
  "ex_good_holder =
     \<lparr>package_to_results =
        [(Package ''A'', [ex_result ''A'' SUCCESS 3]),
         (Package ''C'', [ex_result ''C'' INSTALL_ERROR 2])],
      pairwise_to_results =
        [{Package ''A'', Package ''C''} \<mapsto> [ex_result ''A'' SUCCESS 3]],
      deprecated_deps = [''A'' \<mapsto> ([], False), ''C'' \<mapsto> ([], False)]\<rparr>"

text \<open>
  A third holder, for the scans: the lists of \<open>C\<close> and of the pair end in the failure
  on Python 2 that the version rule excludes.
\<close>

definition ex_scan_holder :: ResultHolder where
  "ex_scan_holder =
     \<lparr>package_to_results =
        [(Package ''A'', [ex_result ''A'' SUCCESS 3]),
         (Package ''C'', [ex_result ''C'' INSTALL_ERROR 3, ex_result ''C'' CHECK_WARNING 3,
                          ex_result ''C'' INSTALL_ERROR 2])],
      pairwise_to_results =
        [{Package ''A'', Package ''C''} \<mapsto>
           [ex_result ''A'' CHECK_WARNING 3, ex_result ''C'' INSTALL_ERROR 2]],
      deprecated_deps = [''A'' \<mapsto> ([], False), ''C'' \<mapsto> ([], False)]\<rparr>"

text \<open>
  A holder that lacks the pairwise list of its two packages and the
  deprecated-dependency entry of \<open>B\<close>.
\<close>

definition ex_partial_holder :: ResultHolder where
  "ex_partial_holder =
     \<lparr>package_to_results =
        [(Package ''A'', [ex_result ''A'' SUCCESS 3]), (Package ''B'', [])],
      pairwise_to_results = Map.empty,
      deprecated_deps = [''A'' \<mapsto> ([], False)]\<rparr>"

section \<open>Properties of the methods\<close>

subsection \<open>The version rule and the two scans\<close>

lemma unsupported_loop_iff:
  "unsupported_loop cfg r v pkgs \<longleftrightarrow>
     python_major_version r = v \<and>
     (\<exists>pkg \<in> set pkgs. install_name pkg \<in> set (PKG_PY_VERSION_NOT_SUPPORTED cfg v))"
  by (induction pkgs) auto

lemma version_loop_iff:
  "version_loop cfg r vs \<longleftrightarrow> (\<exists>v \<in> set vs. unsupported_loop cfg r v (packages r))"
  by (induction vs) auto

lemma is_py_version_incompatible_iff:
  "is_py_version_incompatible cfg r \<longleftrightarrow>
     status r = INSTALL_ERROR \<and>
     (\<exists>v \<in> {2, 3}. python_major_version r = v \<and>
        (\<exists>pkg \<in> set (packages r). install_name pkg \<in> set (PKG_PY_VERSION_NOT_SUPPORTED cfg v)))"
  by (simp add: is_py_version_incompatible_def version_loop_iff unsupported_loop_iff)

lemma self_step_eq:
  "self_step cfg pr (es, t) =
     (if counted cfg pr then (es @ [reported True pr], ''self-'' @ lower (status_value (status pr)))
      else (es, t))"
  by (simp add: self_step_def counted_def reported_def)

lemma pair_step_eq:
  "pair_step cfg pr (es, t) =
     (if counted cfg pr then (es @ [reported False pr], ''pairwise-'' @ lower (status_value (status pr)))
      else (es, t))"
  by (simp add: pair_step_def counted_def reported_def)

lemma self_scan_append:
  "self_scan cfg (xs @ ys) st = self_scan cfg ys (self_scan cfg xs st)"
  by (induction xs arbitrary: st) simp_all

lemma pair_scan_append:
  "pair_scan cfg (xs @ ys) st = pair_scan cfg ys (pair_scan cfg xs st)"
  by (induction xs arbitrary: st) simp_all

lemma self_scan_eq:
  "self_scan cfg prs (es, t) =
     (es @ map (reported True) (filter (counted cfg) prs),
      if filter (counted cfg) prs = [] then t
      else ''self-'' @ lower (status_value (status (last (filter (counted cfg) prs)))))"
  by (induction prs arbitrary: es t) (simp_all add: self_step_eq)

lemma pair_scan_eq:
  "pair_scan cfg prs (es, t) =
     (es @ map (reported False) (filter (counted cfg) prs),
      if filter (counted cfg) prs = [] then t
      else ''pairwise-'' @ lower (status_value (status (last (filter (counted cfg) prs)))))"
  by (induction prs arbitrary: es t) (simp_all add: pair_step_eq)

subsection \<open>The status types\<close>

lemma lower_status_value:
  "lower (status_value s) =
     (case s of UNKNOWN \<Rightarrow> ''unknown'' | SUCCESS \<Rightarrow> ''success''
      | INSTALL_ERROR \<Rightarrow> ''install_error'' | CHECK_WARNING \<Rightarrow> ''check_warning''
      | UNKNOWN_ERROR \<Rightarrow> ''unknown_error'')"
  by (cases s) (simp_all add: lower_def lower_char_def status_value_def)

lemma lower_status_value_success:
  "lower (status_value s) = ''success'' \<longleftrightarrow> s = SUCCESS"
  by (cases s) (simp_all add: lower_status_value)

lemma self_type_not_initial:
  "s \<noteq> SUCCESS \<Longrightarrow> ''self-'' @ lower (status_value s) \<noteq> ''self-success''"
  by (simp add: lower_status_value_success)

lemma suffix_success_self:
  "suffix ''-success'' (''self-'' @ lower (status_value s)) \<longleftrightarrow> s = SUCCESS"
  by (cases s) (simp_all add: lower_status_value suffix_to_prefix)

lemma suffix_success_pairwise:
  "suffix ''-success'' (''pairwise-'' @ lower (status_value s)) \<longleftrightarrow> s = SUCCESS"
  by (cases s) (simp_all add: lower_status_value suffix_to_prefix)


subsection \<open>What \<^verbatim>\<open>get_result\<close> returns\<close>

lemma get_result_same:
  assumes "map_of (package_to_results h) p = Some l"
  shows "get_result cfg h p p =
     Inr \<lparr>status_type =
            (if filter (counted cfg) l = [] then (if l = [] then ''self-unknown'' else ''self-success'')
             else ''self-'' @ lower (status_value (status (last (filter (counted cfg) l))))),
          self_compatibility_check =
            (if l = [] then [synthetic_entry UNKNOWN True]
             else if filter (counted cfg) l = [] then [synthetic_entry SUCCESS True]
             else map (reported True) (filter (counted cfg) (l @ l))),
          pairwise_compatibility_check = []\<rparr>"
  using assms by (simp add: get_result_def self_scan_eq)


lemma counted_last:
  "filter (counted cfg) xs \<noteq> [] \<Longrightarrow> counted cfg (last (filter (counted cfg) xs))"
  using last_in_set[of "filter (counted cfg) xs"] by simp

lemma get_result_distinct:
  assumes "map_of (package_to_results h) p1 = Some l1"
    and "map_of (package_to_results h) p2 = Some l2"
    and "p1 \<noteq> p2"
    and "pairwise_to_results h {p1, p2} = Some pl"
  shows "get_result cfg h p1 p2 =
     Inr \<lparr>status_type =
            (if filter (counted cfg) pl \<noteq> []
             then ''pairwise-'' @ lower (status_value (status (last (filter (counted cfg) pl))))
             else if pl = [] then ''pairwise-unknown''
             else if filter (counted cfg) (l1 @ l2) \<noteq> []
             then ''self-'' @ lower (status_value (status (last (filter (counted cfg) (l1 @ l2)))))
             else if l1 = [] \<or> l2 = [] then ''self-unknown''
             else ''pairwise-success''),
          self_compatibility_check =
            (if l1 = [] \<or> l2 = [] then [synthetic_entry UNKNOWN True] else []) @
            map (reported True) (filter (counted cfg) (l1 @ l2)),
          pairwise_compatibility_check =
            (if pl = [] then [synthetic_entry UNKNOWN False]
             else if filter (counted cfg) pl = [] then [synthetic_entry SUCCESS False]
             else map (reported False) (filter (counted cfg) pl))\<rparr>"
proof -
  define ss where "ss = filter (counted cfg) (l1 @ l2)"
  define ps where "ps = filter (counted cfg) pl"
  have ne: "ss \<noteq> [] \<Longrightarrow> lower (status_value (status (last ss))) \<noteq> ''success''"
    using counted_last[of cfg "l1 @ l2"]
    by (simp add: ss_def counted_def lower_status_value_success del: filter_append)
  have pe: "pl = [] \<Longrightarrow> ps = []"
    by (simp add: ps_def)
  have scan1: "self_scan cfg (l1 @ l2) st = (fst st @ map (reported True) ss,
      if ss = [] then snd st else ''self-'' @ lower (status_value (status (last ss))))" for st
    by (cases st) (simp add: self_scan_eq ss_def del: filter_append)
  have scan2: "pair_scan cfg pl st = (fst st @ map (reported False) ps,
      if ps = [] then snd st else ''pairwise-'' @ lower (status_value (status (last ps))))" for st
    by (cases st) (simp add: pair_scan_eq ps_def)
  have "get_result cfg h p1 p2 =
     Inr \<lparr>status_type =
            (if ps \<noteq> []
             then ''pairwise-'' @ lower (status_value (status (last ps)))
             else if pl = [] then ''pairwise-unknown''
             else if ss \<noteq> []
             then ''self-'' @ lower (status_value (status (last ss)))
             else if l1 = [] \<or> l2 = [] then ''self-unknown''
             else ''pairwise-success''),
          self_compatibility_check =
            (if l1 = [] \<or> l2 = [] then [synthetic_entry UNKNOWN True] else []) @
            map (reported True) ss,
          pairwise_compatibility_check =
            (if pl = [] then [synthetic_entry UNKNOWN False]
             else if ps = [] then [synthetic_entry SUCCESS False]
             else map (reported False) ps)\<rparr>"
    using assms ne pe
    by (simp add: get_result_def scan1 scan2 del: filter_append)
  then show ?thesis by (simp only: ss_def ps_def)
qed


subsection \<open>When \<^verbatim>\<open>get_result\<close> raises\<close>

lemma indexed_iff: "p \<in> indexed h \<longleftrightarrow> (\<exists>l. map_of (package_to_results h) p = Some l)"
proof -
  have "p \<in> indexed h \<longleftrightarrow> map_of (package_to_results h) p \<noteq> None"
    by (simp add: indexed_def map_of_eq_None_iff)
  then show ?thesis by auto
qed

lemma get_result_raises_iff:
  "get_result cfg h p1 p2 = Inl KeyError \<longleftrightarrow>
     p1 \<notin> indexed h \<or> p2 \<notin> indexed h \<or> (p1 \<noteq> p2 \<and> {p1, p2} \<notin> dom (pairwise_to_results h))"
proof (cases "map_of (package_to_results h) p1")
  case None
  then show ?thesis by (simp add: get_result_def indexed_iff)
next
  case l1: (Some l1)
  show ?thesis
  proof (cases "map_of (package_to_results h) p2")
    case None
    then show ?thesis using l1 by (simp add: get_result_def indexed_iff)
  next
    case l2: (Some l2)
    show ?thesis
    proof (cases "p1 = p2")
      case True
      then show ?thesis using l1 by (simp add: get_result_same indexed_iff)
    next
      case False
      show ?thesis
      proof (cases "pairwise_to_results h {p1, p2}")
        case None
        then show ?thesis using l1 l2 False
          by (simp add: get_result_def indexed_iff dom_def split: prod.splits)
      next
        case (Some pl)
        then show ?thesis using l1 l2 False
          by (simp add: get_result_distinct[OF l1 l2 False Some] indexed_iff dom_def)
      qed
    qed
  qed
qed

lemma get_result_returns_iff:
  "(\<exists>r. get_result cfg h p1 p2 = Inr r) \<longleftrightarrow>
     p1 \<in> indexed h \<and> p2 \<in> indexed h \<and> (p1 \<noteq> p2 \<longrightarrow> {p1, p2} \<in> dom (pairwise_to_results h))"
proof -
  have "(\<exists>r. get_result cfg h p1 p2 = Inr r) \<longleftrightarrow> get_result cfg h p1 p2 \<noteq> Inl KeyError"
    by (cases "get_result cfg h p1 p2") (auto intro: error.exhaust)
  then show ?thesis by (auto simp: get_result_raises_iff)
qed

subsection \<open>A scanned result with and without effect\<close>

lemma filter_has_details_reported:
  "filter has_details (map (reported b) xs) = map (reported b) xs"
  by (induction xs) (simp_all add: has_details_def reported_def)

lemma has_details_synthetic: "\<not> has_details (synthetic_entry s b)"
  by (simp add: has_details_def synthetic_entry_def)

lemma self_check_count:
  assumes "map_of (package_to_results h) p1 = Some l1"
    and "map_of (package_to_results h) p2 = Some l2"
    and "get_result cfg h p1 p2 = Inr res"
  shows "length (filter has_details (self_compatibility_check res)) =
         length (filter (counted cfg) (l1 @ l2))"
proof (cases "p1 = p2")
  case True
  then have l: "l2 = l1" using assms(1,2) by simp
  from assms(3) True have "get_result cfg h p1 p1 = Inr res" by simp
  then have "self_compatibility_check res =
            (if l1 = [] then [synthetic_entry UNKNOWN True]
             else if filter (counted cfg) l1 = [] then [synthetic_entry SUCCESS True]
             else map (reported True) (filter (counted cfg) (l1 @ l1)))"
    by (auto simp: get_result_same[OF assms(1)])
  moreover have "filter (counted cfg) l1 = [] \<Longrightarrow> filter (counted cfg) (l1 @ l1) = []"
    by simp
  ultimately show ?thesis
    by (simp add: l filter_has_details_reported has_details_synthetic del: filter_append map_append)
next
  case False
  from assms(3) have "\<exists>r. get_result cfg h p1 p2 = Inr r" by blast
  then obtain pl where pl: "pairwise_to_results h {p1, p2} = Some pl"
    using False by (auto simp: get_result_returns_iff)
  have "self_compatibility_check res =
            (if l1 = [] \<or> l2 = [] then [synthetic_entry UNKNOWN True] else []) @
            map (reported True) (filter (counted cfg) (l1 @ l2))"
    using assms(3) by (auto simp: get_result_distinct[OF assms(1,2) False pl])
  then show ?thesis
    by (simp add: filter_has_details_reported has_details_synthetic del: filter_append map_append)
qed

lemma pair_check_count:
  assumes "p1 \<noteq> p2"
    and "pairwise_to_results h {p1, p2} = Some pl"
    and "get_result cfg h p1 p2 = Inr res"
  shows "length (filter has_details (pairwise_compatibility_check res)) =
         length (filter (counted cfg) pl)"
proof -
  from assms(3) have ret: "\<exists>r. get_result cfg h p1 p2 = Inr r" by blast
  obtain l1 where l1: "map_of (package_to_results h) p1 = Some l1"
    using ret by (auto simp: get_result_returns_iff indexed_iff)
  obtain l2 where l2: "map_of (package_to_results h) p2 = Some l2"
    using ret by (auto simp: get_result_returns_iff indexed_iff)
  have "pairwise_compatibility_check res =
            (if pl = [] then [synthetic_entry UNKNOWN False]
             else if filter (counted cfg) pl = [] then [synthetic_entry SUCCESS False]
             else map (reported False) (filter (counted cfg) pl))"
    using assms(3) by (auto simp: get_result_distinct[OF l1 l2 assms(1,2)])
  then show ?thesis
    by (simp add: filter_has_details_reported has_details_synthetic)
qed

lemma not_counted_iff:
  "\<not> counted cfg r \<longleftrightarrow> status r = SUCCESS \<or> is_py_version_incompatible cfg r"
  by (auto simp: counted_def)

lemma self_step_unchanged_iff:
  "self_step cfg r st = st \<longleftrightarrow> \<not> counted cfg r"
  by (cases st) (simp add: self_step_eq)

lemma pair_step_unchanged_iff:
  "pair_step cfg r st = st \<longleftrightarrow> \<not> counted cfg r"
  by (cases st) (simp add: pair_step_eq)

lemma self_scan_removed:
  "self_scan cfg (xs @ r # ys) st = self_scan cfg (xs @ ys) st \<longleftrightarrow> \<not> counted cfg r"
proof (cases st)
  case (Pair es t)
  show ?thesis
  proof (cases "counted cfg r")
    case True
    have "length (fst (self_scan cfg (xs @ r # ys) st)) \<noteq> length (fst (self_scan cfg (xs @ ys) st))"
      using True by (simp add: Pair self_scan_eq)
    then have "self_scan cfg (xs @ r # ys) st \<noteq> self_scan cfg (xs @ ys) st" by auto
    with True show ?thesis by simp
  next
    case False
    then show ?thesis by (simp add: Pair self_scan_eq)
  qed
qed

lemma pair_scan_removed:
  "pair_scan cfg (xs @ r # ys) st = pair_scan cfg (xs @ ys) st \<longleftrightarrow> \<not> counted cfg r"
proof (cases st)
  case (Pair es t)
  show ?thesis
  proof (cases "counted cfg r")
    case True
    have "length (fst (pair_scan cfg (xs @ r # ys) st)) \<noteq> length (fst (pair_scan cfg (xs @ ys) st))"
      using True by (simp add: Pair pair_scan_eq)
    then have "pair_scan cfg (xs @ r # ys) st \<noteq> pair_scan cfg (xs @ ys) st" by auto
    with True show ?thesis by simp
  next
    case False
    then show ?thesis by (simp add: Pair pair_scan_eq)
  qed
qed

lemma get_result_self_removed:
  assumes l: "map_of (package_to_results h) p = Some (xs @ r # ys)"
    and ne: "xs @ ys \<noteq> []"
    and q: "q1 = p \<or> q2 = p"
    and ret: "get_result cfg h q1 q2 = Inr res"
  shows "get_result cfg (h\<lparr>package_to_results := AList.update p (xs @ ys) (package_to_results h)\<rparr>)
           q1 q2 = get_result cfg h q1 q2 \<longleftrightarrow> \<not> counted cfg r"
proof -
  define h' where "h' = h\<lparr>package_to_results := AList.update p (xs @ ys) (package_to_results h)\<rparr>"
  have map': "map_of (package_to_results h') = (map_of (package_to_results h))(p \<mapsto> xs @ ys)"
    by (simp add: h'_def update_conv')
  have pw': "pairwise_to_results h' = pairwise_to_results h"
    by (simp add: h'_def)
  from ret have rex: "\<exists>r. get_result cfg h q1 q2 = Inr r" by blast
  obtain l1 where l1: "map_of (package_to_results h) q1 = Some l1"
    using rex by (auto simp: get_result_returns_iff indexed_iff)
  obtain l2 where l2: "map_of (package_to_results h) q2 = Some l2"
    using rex by (auto simp: get_result_returns_iff indexed_iff)
  define l1' where "l1' = (if q1 = p then xs @ ys else l1)"
  define l2' where "l2' = (if q2 = p then xs @ ys else l2)"
  have l1': "map_of (package_to_results h') q1 = Some l1'"
    using l1 by (simp add: map' l1'_def)
  have l2': "map_of (package_to_results h') q2 = Some l2'"
    using l2 by (simp add: map' l2'_def)
  have e1: "l1' = [] \<longleftrightarrow> l1 = []"
    using l l1 ne by (auto simp: l1'_def)
  have e2: "l2' = [] \<longleftrightarrow> l2 = []"
    using l l2 ne by (auto simp: l2'_def)
  have idx: "indexed h' = indexed h"
    using l by (auto simp: indexed_iff map' split: if_splits)
  have rex': "\<exists>r. get_result cfg h' q1 q2 = Inr r"
    using rex by (simp add: get_result_returns_iff idx pw')
  then obtain res' where res': "get_result cfg h' q1 q2 = Inr res'" by blast
  show ?thesis
  proof (cases "counted cfg r")
    case True
    have c1: "length (filter (counted cfg) l1) =
        length (filter (counted cfg) l1') + (if q1 = p then 1 else 0)"
      using l l1 True by (auto simp: l1'_def)
    have c2: "length (filter (counted cfg) l2) =
        length (filter (counted cfg) l2') + (if q2 = p then 1 else 0)"
      using l l2 True by (auto simp: l2'_def)
    have "length (filter (counted cfg) (l1 @ l2)) \<noteq> length (filter (counted cfg) (l1' @ l2'))"
      using q by (auto simp: c1 c2)
    then have "length (filter has_details (self_compatibility_check res)) \<noteq>
               length (filter has_details (self_compatibility_check res'))"
      unfolding self_check_count[OF l1 l2 ret] self_check_count[OF l1' l2' res'] .
    then have "res' \<noteq> res" by auto
    with True show ?thesis
      using ret res' by (simp add: h'_def[symmetric])
  next
    case False
    have g1: "filter (counted cfg) l1' = filter (counted cfg) l1"
      using l l1 False by (auto simp: l1'_def)
    have g2: "filter (counted cfg) l2' = filter (counted cfg) l2"
      using l l2 False by (auto simp: l2'_def)
    have "get_result cfg h' q1 q2 = get_result cfg h q1 q2"
    proof (cases "q1 = q2")
      case True
      then show ?thesis
        using e2 g2 by (simp add: get_result_same[OF l2] get_result_same[OF l2'])
    next
      case neq: False
      from rex obtain pl where pl: "pairwise_to_results h {q1, q2} = Some pl"
        using neq by (auto simp: get_result_returns_iff)
      then have pl': "pairwise_to_results h' {q1, q2} = Some pl"
        by (simp add: pw')
      show ?thesis
        using e1 e2 g1 g2
        by (simp add: get_result_distinct[OF l1 l2 neq pl] get_result_distinct[OF l1' l2' neq pl'])
    qed
    with False show ?thesis by (simp add: h'_def[symmetric])
  qed
qed

lemma get_result_pair_removed:
  assumes ne: "p1 \<noteq> p2"
    and pl: "pairwise_to_results h {p1, p2} = Some (xs @ r # ys)"
    and nonempty: "xs @ ys \<noteq> []"
    and ret: "get_result cfg h p1 p2 = Inr res"
  shows "get_result cfg
           (h\<lparr>pairwise_to_results := (pairwise_to_results h)({p1, p2} \<mapsto> xs @ ys)\<rparr>) p1 p2 =
         get_result cfg h p1 p2 \<longleftrightarrow> \<not> counted cfg r"
proof -
  define h' where "h' = h\<lparr>pairwise_to_results := (pairwise_to_results h)({p1, p2} \<mapsto> xs @ ys)\<rparr>"
  from ret have rex: "\<exists>r. get_result cfg h p1 p2 = Inr r" by blast
  obtain l1 where l1: "map_of (package_to_results h) p1 = Some l1"
    using rex by (auto simp: get_result_returns_iff indexed_iff)
  obtain l2 where l2: "map_of (package_to_results h) p2 = Some l2"
    using rex by (auto simp: get_result_returns_iff indexed_iff)
  have l1': "map_of (package_to_results h') p1 = Some l1"
    using l1 by (simp add: h'_def)
  have l2': "map_of (package_to_results h') p2 = Some l2"
    using l2 by (simp add: h'_def)
  define pl0 where "pl0 = xs @ r # ys"
  define pl1 where "pl1 = xs @ ys"
  have pl: "pairwise_to_results h {p1, p2} = Some pl0"
    using pl by (simp add: pl0_def)
  have pl': "pairwise_to_results h' {p1, p2} = Some pl1"
    by (simp add: h'_def pl1_def)
  have n0: "pl0 \<noteq> []" by (simp add: pl0_def)
  have n1: "pl1 \<noteq> []" using nonempty by (simp add: pl1_def)
  show ?thesis
  proof (cases "counted cfg r")
    case True
    obtain res' where res': "get_result cfg h' p1 p2 = Inr res'"
      by (simp add: get_result_distinct[OF l1' l2' ne pl'])
    have "length (filter (counted cfg) pl0) \<noteq> length (filter (counted cfg) pl1)"
      using True by (simp add: pl0_def pl1_def)
    then have "length (filter has_details (pairwise_compatibility_check res)) \<noteq>
               length (filter has_details (pairwise_compatibility_check res'))"
      unfolding pair_check_count[OF ne pl ret] pair_check_count[OF ne pl' res'] .
    then have "res' \<noteq> res" by auto
    with True show ?thesis
      using ret res' by (simp add: h'_def[symmetric])
  next
    case False
    have "filter (counted cfg) pl0 = filter (counted cfg) pl1"
      using False by (simp add: pl0_def pl1_def)
    then have "get_result cfg h' p1 p2 = get_result cfg h p1 p2"
      using n0 n1
      by (simp add: get_result_distinct[OF l1 l2 ne pl] get_result_distinct[OF l1' l2' ne pl'])
    with False show ?thesis by (simp add: h'_def[symmetric])
  qed
qed

subsection \<open>\<^verbatim>\<open>has_issues\<close>\<close>

lemma pair_res_loop_iff:
  "pair_res_loop c es \<longleftrightarrow> \<not> c \<and> (\<exists>e \<in> set es. entry_status e \<noteq> ''SUCCESS'')"
  by (induction es) auto

lemma has_issues_loop_False:
  "(\<forall>q \<in> set qs. has_issues_body cfg h p q = Inr False) \<Longrightarrow>
     has_issues_loop cfg h p qs = Inr False"
  by (induction qs) simp_all

lemma has_issues_loop_TrueD:
  "has_issues_loop cfg h p qs = Inr True \<Longrightarrow>
     \<exists>q \<in> set qs. has_issues_body cfg h p q = Inr True"
  by (induction qs) (auto split: sum.splits bool.splits)

lemma has_issues_loop_returns:
  "(\<forall>q \<in> set qs. \<exists>b. has_issues_body cfg h p q = Inr b) \<Longrightarrow>
     \<exists>b. has_issues_loop cfg h p qs = Inr b"
  by (induction qs) (auto split: sum.splits bool.splits)

lemma has_issues_body_returns:
  assumes "\<exists>r. get_result cfg h p q = Inr r"
  shows "\<exists>b. has_issues_body cfg h p q = Inr b"
proof -
  from assms obtain r where r: "get_result cfg h p q = Inr r" by blast
  then have "q \<in> indexed h"
    using get_result_returns_iff[of cfg h p q] by blast
  then have "\<exists>rq. get_result cfg h q q = Inr rq"
    by (simp add: get_result_returns_iff)
  then obtain rq where "get_result cfg h q q = Inr rq" by blast
  with r show ?thesis by (simp add: has_issues_body_def)
qed

lemma get_result_success_pair:
  assumes "get_result cfg h p1 p2 = Inr res" and "p1 \<noteq> p2"
    and "suffix ''-success'' (status_type res)"
  shows "pairwise_compatibility_check res = [synthetic_entry SUCCESS False]"
proof -
  from assms(1) have ret: "\<exists>r. get_result cfg h p1 p2 = Inr r" by blast
  obtain l1 where l1: "map_of (package_to_results h) p1 = Some l1"
    using ret by (auto simp: get_result_returns_iff indexed_iff)
  obtain l2 where l2: "map_of (package_to_results h) p2 = Some l2"
    using ret by (auto simp: get_result_returns_iff indexed_iff)
  obtain pl where pl: "pairwise_to_results h {p1, p2} = Some pl"
    using ret assms(2) by (auto simp: get_result_returns_iff)
  define ss where "ss = filter (counted cfg) (l1 @ l2)"
  define ps where "ps = filter (counted cfg) pl"
  have s1: "ss \<noteq> [] \<Longrightarrow> status (last ss) \<noteq> SUCCESS"
    using counted_last[of cfg "l1 @ l2"] by (simp add: ss_def counted_def del: filter_append)
  have s2: "ps \<noteq> [] \<Longrightarrow> status (last ps) \<noteq> SUCCESS"
    using counted_last[of cfg pl] by (simp add: ps_def counted_def)
  have pe: "pl = [] \<Longrightarrow> ps = []" by (simp add: ps_def)
  have u1: "\<not> suffix ''-success'' ''pairwise-unknown''"
    by (simp add: suffix_to_prefix)
  have u2: "\<not> suffix ''-success'' ''self-unknown''"
    by (simp add: suffix_to_prefix)
  have res: "res = \<lparr>status_type =
            (if ps \<noteq> []
             then ''pairwise-'' @ lower (status_value (status (last ps)))
             else if pl = [] then ''pairwise-unknown''
             else if ss \<noteq> []
             then ''self-'' @ lower (status_value (status (last ss)))
             else if l1 = [] \<or> l2 = [] then ''self-unknown''
             else ''pairwise-success''),
          self_compatibility_check =
            (if l1 = [] \<or> l2 = [] then [synthetic_entry UNKNOWN True] else []) @
            map (reported True) ss,
          pairwise_compatibility_check =
            (if pl = [] then [synthetic_entry UNKNOWN False]
             else if ps = [] then [synthetic_entry SUCCESS False]
             else map (reported False) ps)\<rparr>"
    using assms(1) unfolding get_result_distinct[OF l1 l2 assms(2) pl] ss_def ps_def by simp
  show ?thesis
  proof (cases "ps \<noteq> []")
    case True
    then have "suffix ''-success'' (''pairwise-'' @ lower (status_value (status (last ps))))"
      using assms(3) by (simp add: res)
    then have "status (last ps) = SUCCESS"
      by (simp only: suffix_success_pairwise)
    with s2 True show ?thesis by simp
  next
    case ps: False
    show ?thesis
    proof (cases "pl = []")
      case True
      then show ?thesis using assms(3) ps u1 by (simp add: res)
    next
      case pl: False
      show ?thesis
      proof (cases "ss \<noteq> []")
        case True
        then have "suffix ''-success'' (''self-'' @ lower (status_value (status (last ss))))"
          using assms(3) ps pl by (simp add: res)
        then have "status (last ss) = SUCCESS"
          by (simp only: suffix_success_self)
        with s1 True show ?thesis by simp
      next
        case False
        then show ?thesis
          using assms(3) ps pl u2 by (simp add: res split: if_splits)
      qed
    qed
  qed
qed

lemma has_issues_returns:
  assumes "index_complete h" and "p \<in> indexed h"
  shows "\<exists>b. has_issues cfg h p = Inr b"
proof -
  have "\<exists>b. has_issues_body cfg h p q = Inr b" if "q \<in> indexed h" for q
  proof -
    have "\<exists>r. get_result cfg h p q = Inr r"
      using assms that by (auto simp: get_result_returns_iff index_complete_def)
    then show ?thesis by (rule has_issues_body_returns)
  qed
  then show ?thesis
    by (simp add: has_issues_def has_issues_loop_returns indexed_def)
qed

subsection \<open>Deprecated dependencies and the statistics\<close>

lemma statistics_loop_bounds:
  "statistics_loop cfg h pkgs (c, d, u) = Inr (c', d', u') \<Longrightarrow>
     c \<le> c' \<and> c' \<le> c + int (length pkgs) \<and> d \<le> d' \<and> d' \<le> d + int (length pkgs) \<and> u' = u"
proof (induction pkgs arbitrary: c d u)
  case Nil
  then show ?case by simp
next
  case (Cons pkg pkgs)
  from Cons.prems obtain i dd where
    rec: "statistics_loop cfg h pkgs
            (if i then c + 1 else c, if dd then d + 1 else d, u) = Inr (c', d', u')"
    by (auto simp: needs_update_def split: sum.splits)
  from Cons.IH[OF rec] show ?case
    by (auto split: if_splits)
qed

lemma install_name_mem_iff:
  "install_name p \<in> install_name ` S \<longleftrightarrow> p \<in> S"
  by (auto dest: package.expand)

lemma has_deprecated_deps_raises_iff:
  "has_deprecated_deps h p = Inl KeyError \<longleftrightarrow> install_name p \<notin> dom (deprecated_deps h)"
  by (auto simp: has_deprecated_deps_def split: option.splits)

lemma has_deprecated_deps_returns_iff:
  "(\<exists>b. has_deprecated_deps h p = Inr b) \<longleftrightarrow> install_name p \<in> dom (deprecated_deps h)"
  by (auto simp: has_deprecated_deps_def split: option.splits)

lemma statistics_loop_returns:
  assumes "index_complete h"
  shows "set pkgs \<subseteq> indexed h \<Longrightarrow> \<exists>res. statistics_loop cfg h pkgs cnt = Inr res"
proof (induction pkgs arbitrary: cnt)
  case Nil
  show ?case by (cases cnt) auto
next
  case (Cons pkg pkgs)
  then have pkg: "pkg \<in> indexed h" and rest: "set pkgs \<subseteq> indexed h" by simp_all
  obtain i where i: "has_issues cfg h pkg = Inr i"
    using has_issues_returns[OF assms pkg] by blast
  have "install_name pkg \<in> dom (deprecated_deps h)"
    using assms pkg by (simp add: index_complete_def)
  then obtain d where d: "has_deprecated_deps h pkg = Inr d"
    using has_deprecated_deps_returns_iff[of h pkg] by blast
  obtain c dd u where cnt: "cnt = (c, dd, u)" by (cases cnt) auto
  show ?case
    using Cons.IH[OF rest] by (simp add: cnt i d)
qed

text \<open>The names \<^verbatim>\<open>deprecated_deps\<close> is keyed by are the ones the finder yields.\<close>

lemma deprecated_deps_loop_dom:
  "dom (deprecated_deps_loop found results) = dom results \<union> fst ` set found"
proof (induction found results rule: deprecated_deps_loop.induct)
  case (1 results)
  show ?case by simp
next
  case (2 pkg_name deps items results)
  have "dom (deprecated_deps_loop ((pkg_name, deps) # items) results) =
        insert pkg_name (dom results) \<union> fst ` set items"
    using "2.IH" by (simp del: fun_upd_apply)
  then show ?case by (simp del: fun_upd_apply)
qed

lemma get_deprecated_deps_dom:
  "dom (get_deprecated_deps found) = fst ` set found"
  by (simp add: get_deprecated_deps_def deprecated_deps_loop_dom)

subsection \<open>The examples, evaluated\<close>

lemmas ex_defs = ex_cfg_def ex_result_def ex_holder_def

lemma ex_get_result_A_B:
  "get_result ex_cfg ex_holder (Package ''A'') (Package ''B'') =
     Inr \<lparr>status_type = ''pairwise-unknown'',
          self_compatibility_check =
            [\<lparr>entry_status = ''UNKNOWN'', entry_self = True, entry_details = None\<rparr>],
          pairwise_compatibility_check =
            [\<lparr>entry_status = ''UNKNOWN'', entry_self = False, entry_details = None\<rparr>]\<rparr>"
  by (simp add: ex_defs get_result_def synthetic_entry_def self_step_def
      is_py_version_incompatible_def doubleton_eq_iff)

lemmas ex_good_defs = ex_cfg_def ex_result_def ex_good_holder_def

lemma ex_good_get_result_A_C:
  "get_result ex_cfg ex_good_holder (Package ''A'') (Package ''C'') =
     Inr \<lparr>status_type = ''pairwise-success'',
          self_compatibility_check = [],
          pairwise_compatibility_check =
            [\<lparr>entry_status = ''SUCCESS'', entry_self = False, entry_details = None\<rparr>]\<rparr>"
  by (simp add: ex_good_defs get_result_def synthetic_entry_def self_step_def pair_step_def
      is_py_version_incompatible_def)

lemma ex_indexed: "indexed ex_holder = {Package ''A'', Package ''B'', Package ''C''}"
  by (simp add: indexed_def ex_holder_def)

lemma ex_index_complete: "index_complete ex_holder"
  unfolding index_complete_def ex_indexed
  by (simp add: ex_holder_def doubleton_eq_iff insert_commute)

lemma ex_get_statistics:
  "get_statistics ex_cfg ex_holder [Package ''A'', Package ''B''] = Inr (3, 1, 1, 0)"
  by code_simp

lemmas ex_scan_defs = ex_cfg_def ex_result_def ex_scan_holder_def

lemma ex_scan_get_result_A_C:
  "get_result ex_cfg ex_scan_holder (Package ''A'') (Package ''C'') =
     Inr \<lparr>status_type = ''pairwise-check_warning'',
          self_compatibility_check =
            [\<lparr>entry_status = ''INSTALL_ERROR'', entry_self = True, entry_details = Some None\<rparr>,
             \<lparr>entry_status = ''CHECK_WARNING'', entry_self = True, entry_details = Some None\<rparr>],
          pairwise_compatibility_check =
            [\<lparr>entry_status = ''CHECK_WARNING'', entry_self = False, entry_details = Some None\<rparr>]\<rparr>"
  by (simp add: ex_scan_defs get_result_def synthetic_entry_def self_step_def pair_step_def
      is_py_version_incompatible_def lower_def lower_char_def status_value_def)

section \<open>The claims\<close>

text \<open>
  Claim C1, as stated, fails on the example of the claim itself: \<open>A\<close> has one
  \<^verbatim>\<open>SUCCESS\<close> self result, \<open>B\<close> has none, and the pair has no results. The test
  of the first step is \<^verbatim>\<open>not results[A] or not results[B]\<close>, so the self-level
  \<^verbatim>\<open>UNKNOWN\<close> entry is recorded although the list of \<open>A\<close> is not empty.
\<close>

theorem C1_counterexample:
  "map_of (package_to_results ex_holder) (Package ''A'') = Some [ex_result ''A'' SUCCESS 3] \<and>
   map_of (package_to_results ex_holder) (Package ''B'') = Some [] \<and>
   pairwise_to_results ex_holder {Package ''A'', Package ''B''} = Some [] \<and>
   get_result ex_cfg ex_holder (Package ''A'') (Package ''B'') =
     Inr \<lparr>status_type = ''pairwise-unknown'',
          self_compatibility_check =
            [\<lparr>entry_status = ''UNKNOWN'', entry_self = True, entry_details = None\<rparr>],
          pairwise_compatibility_check =
            [\<lparr>entry_status = ''UNKNOWN'', entry_self = False, entry_details = None\<rparr>]\<rparr>"
  using ex_get_result_A_B by (simp add: ex_defs doubleton_eq_iff)

text \<open>
  Claim C1, amended. The \<^verbatim>\<open>UNKNOWN\<close> entry of the first step (the only entry with
  status \<^verbatim>\<open>UNKNOWN\<close>, \<^verbatim>\<open>self = True\<close> and no details) is in the returned
  \<^verbatim>\<open>self_compatibility_check\<close> exactly when at least one of the two lists of self
  results is empty. When the two packages differ and the pair has an empty list of
  results, the status type is \<^verbatim>\<open>'pairwise-unknown'\<close> and the pairwise check is the
  single \<^verbatim>\<open>UNKNOWN\<close> entry, whatever the first step recorded.
\<close>

theorem C1_unknown_when_either_empty:
  assumes "map_of (package_to_results h) p1 = Some l1"
    and "map_of (package_to_results h) p2 = Some l2"
    and "get_result cfg h p1 p2 = Inr r"
  shows "(\<lparr>entry_status = ''UNKNOWN'', entry_self = True, entry_details = None\<rparr>
            \<in> set (self_compatibility_check r) \<longleftrightarrow> l1 = [] \<or> l2 = []) \<and>
         (p1 \<noteq> p2 \<and> pairwise_to_results h {p1, p2} = Some [] \<longrightarrow>
            status_type r = ''pairwise-unknown'' \<and>
            pairwise_compatibility_check r =
              [\<lparr>entry_status = ''UNKNOWN'', entry_self = False, entry_details = None\<rparr>])"
proof (cases "p1 = p2")
  case True
  then have l: "l2 = l1" using assms(1,2) by simp
  from assms(3) True have "get_result cfg h p1 p1 = Inr r" by simp
  then have "r = \<lparr>status_type =
            (if filter (counted cfg) l1 = [] then (if l1 = [] then ''self-unknown'' else ''self-success'')
             else ''self-'' @ lower (status_value (status (last (filter (counted cfg) l1))))),
          self_compatibility_check =
            (if l1 = [] then [synthetic_entry UNKNOWN True]
             else if filter (counted cfg) l1 = [] then [synthetic_entry SUCCESS True]
             else map (reported True) (filter (counted cfg) (l1 @ l1))),
          pairwise_compatibility_check = []\<rparr>"
    by (simp add: get_result_same[OF assms(1)])
  then show ?thesis
    using True l by (auto simp: synthetic_entry_def reported_def)
next
  case False
  from assms(3) have "\<exists>r. get_result cfg h p1 p2 = Inr r" by blast
  then obtain pl where pl: "pairwise_to_results h {p1, p2} = Some pl"
    using False by (auto simp: get_result_returns_iff)
  show ?thesis
    using assms(3) False pl
    by (auto simp: get_result_distinct[OF assms(1,2) False pl] synthetic_entry_def
        reported_def split: if_splits)
qed

theorem C1_unknown_when_either_empty_witness:
  "\<lparr>entry_status = ''UNKNOWN'', entry_self = True, entry_details = None\<rparr>
     \<in> set (self_compatibility_check
         \<lparr>status_type = ''pairwise-unknown'',
          self_compatibility_check =
            [\<lparr>entry_status = ''UNKNOWN'', entry_self = True, entry_details = None\<rparr>],
          pairwise_compatibility_check =
            [\<lparr>entry_status = ''UNKNOWN'', entry_self = False, entry_details = None\<rparr>]\<rparr>) \<and>
   get_result ex_cfg ex_holder (Package ''A'') (Package ''B'') =
     Inr \<lparr>status_type = ''pairwise-unknown'',
          self_compatibility_check =
            [\<lparr>entry_status = ''UNKNOWN'', entry_self = True, entry_details = None\<rparr>],
          pairwise_compatibility_check =
            [\<lparr>entry_status = ''UNKNOWN'', entry_self = False, entry_details = None\<rparr>]\<rparr> \<and>
   map_of (package_to_results ex_holder) (Package ''A'') = Some [ex_result ''A'' SUCCESS 3] \<and>
   map_of (package_to_results ex_holder) (Package ''B'') = Some []"
proof -
  have a: "map_of (package_to_results ex_holder) (Package ''A'') = Some [ex_result ''A'' SUCCESS 3]"
    by (simp add: ex_defs)
  have b: "map_of (package_to_results ex_holder) (Package ''B'') = Some []"
    by (simp add: ex_defs)
  from C1_unknown_when_either_empty[OF a b ex_get_result_A_B] a b ex_get_result_A_B
  show ?thesis by simp
qed

text \<open>
  Claim C2, as stated, fails for a result whose status is \<^verbatim>\<open>SUCCESS\<close>: the test of
  both scans is \<^verbatim>\<open>not excluded and status != SUCCESS\<close>, so such a result appends no
  entry and leaves the status type as it is, although its status is not
  \<^verbatim>\<open>INSTALL_ERROR\<close>. Here the self scan of \<^verbatim>\<open>get_result(A, C)\<close> meets the
  \<^verbatim>\<open>SUCCESS\<close> result of \<open>A\<close> and the pairwise scan meets the one of the pair.
\<close>

theorem C2_counterexample:
  "status (ex_result ''A'' SUCCESS 3) \<noteq> INSTALL_ERROR \<and>
   self_step ex_cfg (ex_result ''A'' SUCCESS 3) ([], ''self-success'') = ([], ''self-success'') \<and>
   pair_step ex_cfg (ex_result ''A'' SUCCESS 3) ([], ''self-success'') = ([], ''self-success'') \<and>
   map_of (package_to_results ex_good_holder) (Package ''A'') = Some [ex_result ''A'' SUCCESS 3] \<and>
   pairwise_to_results ex_good_holder {Package ''A'', Package ''C''} =
     Some [ex_result ''A'' SUCCESS 3] \<and>
   get_result ex_cfg ex_good_holder (Package ''A'') (Package ''C'') =
     Inr \<lparr>status_type = ''pairwise-success'',
          self_compatibility_check = [],
          pairwise_compatibility_check =
            [\<lparr>entry_status = ''SUCCESS'', entry_self = False, entry_details = None\<rparr>]\<rparr>"
  using ex_good_get_result_A_C
  by (simp add: ex_good_defs self_step_def pair_step_def)

text \<open>
  Claim C2, amended. A result is excluded by \<^verbatim>\<open>_is_py_version_incompatible\<close>
  exactly when its status is \<^verbatim>\<open>INSTALL_ERROR\<close> and, for a version \<open>v\<close> of 2 and 3
  that equals the major version recorded in the result, the install name of one of its
  packages is in the not-supported list of \<open>v\<close>. A result scanned by the self scan
  or by the pairwise scan appends no entry and leaves the status type as it is exactly
  when its status is \<^verbatim>\<open>SUCCESS\<close> or it is excluded. This holds of one turn of
  either loop, of either scan as a whole (the scan of a list with the result and of
  the list without it end in the same state) and of \<^verbatim>\<open>get_result\<close> (the holder
  with the result and the holder without it give the same answer), as long as the
  result is not the only one of its list: an empty list is reported as
  \<^verbatim>\<open>UNKNOWN\<close>. So an \<^verbatim>\<open>INSTALL_ERROR\<close> result for Python 2 on a package of the
  not-supported list of version 2 is left out although its status is not
  \<^verbatim>\<open>SUCCESS\<close>.
\<close>

theorem C2_no_effect_iff_success_or_excluded:
  "(is_py_version_incompatible cfg r \<longleftrightarrow>
      status r = INSTALL_ERROR \<and>
      (\<exists>v \<in> {2, 3}. python_major_version r = v \<and>
         (\<exists>pkg \<in> set (packages r).
            install_name pkg \<in> set (PKG_PY_VERSION_NOT_SUPPORTED cfg v)))) \<and>
   (self_step cfg r st = st \<longleftrightarrow> status r = SUCCESS \<or> is_py_version_incompatible cfg r) \<and>
   (pair_step cfg r st = st \<longleftrightarrow> status r = SUCCESS \<or> is_py_version_incompatible cfg r) \<and>
   (self_scan cfg (xs @ r # ys) st = self_scan cfg (xs @ ys) st \<longleftrightarrow>
      status r = SUCCESS \<or> is_py_version_incompatible cfg r) \<and>
   (pair_scan cfg (xs @ r # ys) st = pair_scan cfg (xs @ ys) st \<longleftrightarrow>
      status r = SUCCESS \<or> is_py_version_incompatible cfg r) \<and>
   (map_of (package_to_results h) p = Some (xs @ r # ys) \<and> xs @ ys \<noteq> [] \<and>
    (q1 = p \<or> q2 = p) \<and> (\<exists>res. get_result cfg h q1 q2 = Inr res) \<longrightarrow>
      (get_result cfg
         (h\<lparr>package_to_results := AList.update p (xs @ ys) (package_to_results h)\<rparr>) q1 q2 =
       get_result cfg h q1 q2 \<longleftrightarrow>
         status r = SUCCESS \<or> is_py_version_incompatible cfg r)) \<and>
   (q1 \<noteq> q2 \<and> pairwise_to_results h {q1, q2} = Some (xs @ r # ys) \<and> xs @ ys \<noteq> [] \<and>
    (\<exists>res. get_result cfg h q1 q2 = Inr res) \<longrightarrow>
      (get_result cfg
         (h\<lparr>pairwise_to_results := (pairwise_to_results h)({q1, q2} \<mapsto> xs @ ys)\<rparr>) q1 q2 =
       get_result cfg h q1 q2 \<longleftrightarrow>
         status r = SUCCESS \<or> is_py_version_incompatible cfg r))"
proof -
  have n: "\<not> counted cfg r \<longleftrightarrow> status r = SUCCESS \<or> is_py_version_incompatible cfg r"
    by (rule not_counted_iff)
  have a: "is_py_version_incompatible cfg r \<longleftrightarrow>
      status r = INSTALL_ERROR \<and>
      (\<exists>v \<in> {2, 3}. python_major_version r = v \<and>
         (\<exists>pkg \<in> set (packages r).
            install_name pkg \<in> set (PKG_PY_VERSION_NOT_SUPPORTED cfg v)))"
    by (rule is_py_version_incompatible_iff)
  have b: "self_step cfg r st = st \<longleftrightarrow> status r = SUCCESS \<or> is_py_version_incompatible cfg r"
    unfolding n[symmetric] by (rule self_step_unchanged_iff)
  have c: "pair_step cfg r st = st \<longleftrightarrow> status r = SUCCESS \<or> is_py_version_incompatible cfg r"
    unfolding n[symmetric] by (rule pair_step_unchanged_iff)
  have d: "self_scan cfg (xs @ r # ys) st = self_scan cfg (xs @ ys) st \<longleftrightarrow>
      status r = SUCCESS \<or> is_py_version_incompatible cfg r"
    unfolding n[symmetric] by (rule self_scan_removed)
  have e: "pair_scan cfg (xs @ r # ys) st = pair_scan cfg (xs @ ys) st \<longleftrightarrow>
      status r = SUCCESS \<or> is_py_version_incompatible cfg r"
    unfolding n[symmetric] by (rule pair_scan_removed)
  have f: "get_result cfg
         (h\<lparr>package_to_results := AList.update p (xs @ ys) (package_to_results h)\<rparr>) q1 q2 =
       get_result cfg h q1 q2 \<longleftrightarrow>
         status r = SUCCESS \<or> is_py_version_incompatible cfg r"
    if "map_of (package_to_results h) p = Some (xs @ r # ys) \<and> xs @ ys \<noteq> [] \<and>
        (q1 = p \<or> q2 = p) \<and> (\<exists>res. get_result cfg h q1 q2 = Inr res)"
  proof -
    from that obtain res where res: "get_result cfg h q1 q2 = Inr res" by blast
    from that have l: "map_of (package_to_results h) p = Some (xs @ r # ys)"
      and ne: "xs @ ys \<noteq> []" and q: "q1 = p \<or> q2 = p" by blast+
    show ?thesis
      unfolding n[symmetric] by (rule get_result_self_removed[OF l ne q res])
  qed
  have g: "get_result cfg
         (h\<lparr>pairwise_to_results := (pairwise_to_results h)({q1, q2} \<mapsto> xs @ ys)\<rparr>) q1 q2 =
       get_result cfg h q1 q2 \<longleftrightarrow>
         status r = SUCCESS \<or> is_py_version_incompatible cfg r"
    if "q1 \<noteq> q2 \<and> pairwise_to_results h {q1, q2} = Some (xs @ r # ys) \<and> xs @ ys \<noteq> [] \<and>
        (\<exists>res. get_result cfg h q1 q2 = Inr res)"
  proof -
    from that obtain res where res: "get_result cfg h q1 q2 = Inr res" by blast
    from that have neq: "q1 \<noteq> q2"
      and pl: "pairwise_to_results h {q1, q2} = Some (xs @ r # ys)"
      and ne: "xs @ ys \<noteq> []" by blast+
    show ?thesis
      unfolding n[symmetric] by (rule get_result_pair_removed[OF neq pl ne res])
  qed
  from a b c d e f g show ?thesis by blast
qed

theorem C2_no_effect_iff_success_or_excluded_witness:
  "is_py_version_incompatible ex_cfg (ex_result ''C'' INSTALL_ERROR 2) \<and>
   status (ex_result ''C'' INSTALL_ERROR 2) \<noteq> SUCCESS \<and>
   self_scan ex_cfg
     [ex_result ''C'' INSTALL_ERROR 3, ex_result ''C'' CHECK_WARNING 3,
      ex_result ''C'' INSTALL_ERROR 2] ([], ''self-success'') =
   self_scan ex_cfg
     [ex_result ''C'' INSTALL_ERROR 3, ex_result ''C'' CHECK_WARNING 3] ([], ''self-success'') \<and>
   map_of (package_to_results ex_scan_holder) (Package ''C'') =
     Some [ex_result ''C'' INSTALL_ERROR 3, ex_result ''C'' CHECK_WARNING 3,
           ex_result ''C'' INSTALL_ERROR 2] \<and>
   get_result ex_cfg
     (ex_scan_holder\<lparr>package_to_results :=
        AList.update (Package ''C'')
          [ex_result ''C'' INSTALL_ERROR 3, ex_result ''C'' CHECK_WARNING 3]
          (package_to_results ex_scan_holder)\<rparr>) (Package ''A'') (Package ''C'') =
   get_result ex_cfg ex_scan_holder (Package ''A'') (Package ''C'') \<and>
   pairwise_to_results ex_scan_holder {Package ''A'', Package ''C''} =
     Some [ex_result ''A'' CHECK_WARNING 3, ex_result ''C'' INSTALL_ERROR 2] \<and>
   get_result ex_cfg
     (ex_scan_holder\<lparr>pairwise_to_results :=
        (pairwise_to_results ex_scan_holder)
          ({Package ''A'', Package ''C''} \<mapsto> [ex_result ''A'' CHECK_WARNING 3])\<rparr>)
     (Package ''A'') (Package ''C'') =
   get_result ex_cfg ex_scan_holder (Package ''A'') (Package ''C'') \<and>
   \<not> is_py_version_incompatible ex_cfg (ex_result ''C'' CHECK_WARNING 3) \<and>
   self_step ex_cfg (ex_result ''C'' CHECK_WARNING 3) ([], ''self-success'') \<noteq>
     ([], ''self-success'')"
proof -
  have ret: "\<exists>res. get_result ex_cfg ex_scan_holder (Package ''A'') (Package ''C'') = Inr res"
    by (simp add: ex_scan_get_result_A_C)
  have l: "map_of (package_to_results ex_scan_holder) (Package ''C'') =
     Some ([ex_result ''C'' INSTALL_ERROR 3, ex_result ''C'' CHECK_WARNING 3] @
           ex_result ''C'' INSTALL_ERROR 2 # [])"
    by (simp add: ex_scan_defs)
  have pl: "pairwise_to_results ex_scan_holder {Package ''A'', Package ''C''} =
     Some ([ex_result ''A'' CHECK_WARNING 3] @ ex_result ''C'' INSTALL_ERROR 2 # [])"
    by (simp add: ex_scan_defs)
  have ex: "is_py_version_incompatible ex_cfg (ex_result ''C'' INSTALL_ERROR 2)"
    by (simp add: ex_scan_defs is_py_version_incompatible_def)
  have nex: "\<not> is_py_version_incompatible ex_cfg (ex_result ''C'' CHECK_WARNING 3)"
    by (simp add: ex_scan_defs is_py_version_incompatible_def)
  have st: "status (ex_result ''C'' INSTALL_ERROR 2) \<noteq> SUCCESS"
    "status (ex_result ''C'' CHECK_WARNING 3) \<noteq> SUCCESS"
    by (simp_all add: ex_result_def)
  note t1 = C2_no_effect_iff_success_or_excluded[of ex_cfg "ex_result ''C'' INSTALL_ERROR 2"
      "([], ''self-success'')"
      "[ex_result ''C'' INSTALL_ERROR 3, ex_result ''C'' CHECK_WARNING 3]" "[]"
      ex_scan_holder "Package ''C''" "Package ''A''" "Package ''C''"]
  note t2 = C2_no_effect_iff_success_or_excluded[of ex_cfg "ex_result ''C'' INSTALL_ERROR 2"
      "([], ''self-success'')"
      "[ex_result ''A'' CHECK_WARNING 3]" "[]"
      ex_scan_holder "Package ''C''" "Package ''A''" "Package ''C''"]
  note t3 = C2_no_effect_iff_success_or_excluded[of ex_cfg "ex_result ''C'' CHECK_WARNING 3"
      "([], ''self-success'')" "[]" "[]" ex_scan_holder "Package ''C''" "Package ''A''"
      "Package ''C''"]
  have a: "self_scan ex_cfg
     ([ex_result ''C'' INSTALL_ERROR 3, ex_result ''C'' CHECK_WARNING 3] @
      ex_result ''C'' INSTALL_ERROR 2 # []) ([], ''self-success'') =
   self_scan ex_cfg
     ([ex_result ''C'' INSTALL_ERROR 3, ex_result ''C'' CHECK_WARNING 3] @ [])
     ([], ''self-success'')"
    using t1 ex by blast
  have b: "get_result ex_cfg
     (ex_scan_holder\<lparr>package_to_results :=
        AList.update (Package ''C'')
          ([ex_result ''C'' INSTALL_ERROR 3, ex_result ''C'' CHECK_WARNING 3] @ [])
          (package_to_results ex_scan_holder)\<rparr>) (Package ''A'') (Package ''C'') =
   get_result ex_cfg ex_scan_holder (Package ''A'') (Package ''C'')"
    using t1 ex l ret by simp
  have c: "get_result ex_cfg
     (ex_scan_holder\<lparr>pairwise_to_results :=
        (pairwise_to_results ex_scan_holder)
          ({Package ''A'', Package ''C''} \<mapsto> [ex_result ''A'' CHECK_WARNING 3] @ [])\<rparr>)
     (Package ''A'') (Package ''C'') =
   get_result ex_cfg ex_scan_holder (Package ''A'') (Package ''C'')"
    using t2 ex pl ret by simp
  have d: "self_step ex_cfg (ex_result ''C'' CHECK_WARNING 3) ([], ''self-success'') \<noteq>
     ([], ''self-success'')"
    using t3 nex st by blast
  from a b c d ex nex st l pl show ?thesis by simp
qed

text \<open>
  Claim C3. For a package whose list of self results is not empty and holds only
  \<^verbatim>\<open>SUCCESS\<close> results, \<^verbatim>\<open>get_result(p, p)\<close> returns a
  \<^verbatim>\<open>self_compatibility_check\<close> of exactly one entry, with status \<^verbatim>\<open>SUCCESS\<close> and
  \<^verbatim>\<open>self = True\<close>, and the status type \<^verbatim>\<open>'self-success'\<close>.
\<close>

theorem C3_self_success:
  assumes "map_of (package_to_results h) p = Some l"
    and "l \<noteq> []"
    and "\<forall>r \<in> set l. status r = SUCCESS"
  shows "get_result cfg h p p =
     Inr \<lparr>status_type = ''self-success'',
          self_compatibility_check =
            [\<lparr>entry_status = ''SUCCESS'', entry_self = True, entry_details = None\<rparr>],
          pairwise_compatibility_check = []\<rparr>"
proof -
  have "filter (counted cfg) l = []"
    using assms(3) by (simp add: counted_def filter_empty_conv)
  then show ?thesis
    using assms(2) by (simp add: get_result_same[OF assms(1)] synthetic_entry_def)
qed

theorem C3_self_success_witness:
  "get_result ex_cfg ex_holder (Package ''A'') (Package ''A'') =
     Inr \<lparr>status_type = ''self-success'',
          self_compatibility_check =
            [\<lparr>entry_status = ''SUCCESS'', entry_self = True, entry_details = None\<rparr>],
          pairwise_compatibility_check = []\<rparr>"
  using C3_self_success[of ex_holder "Package ''A''" "[ex_result ''A'' SUCCESS 3]" ex_cfg]
  by (simp add: ex_defs)

text \<open>
  Claim C4. For a package whose list of self results is empty, \<^verbatim>\<open>get_result(p, p)\<close>
  returns a \<^verbatim>\<open>self_compatibility_check\<close> with an entry of status \<^verbatim>\<open>UNKNOWN\<close> and
  \<^verbatim>\<open>self = True\<close>, and the status type \<^verbatim>\<open>'self-unknown'\<close>, whatever else the
  holder contains.
\<close>

theorem C4_self_unknown:
  assumes "map_of (package_to_results h) p = Some []"
  shows "get_result cfg h p p =
     Inr \<lparr>status_type = ''self-unknown'',
          self_compatibility_check =
            [\<lparr>entry_status = ''UNKNOWN'', entry_self = True, entry_details = None\<rparr>],
          pairwise_compatibility_check = []\<rparr>"
  by (simp add: get_result_same[OF assms] synthetic_entry_def)

theorem C4_self_unknown_witness:
  "get_result ex_cfg ex_holder (Package ''B'') (Package ''B'') =
     Inr \<lparr>status_type = ''self-unknown'',
          self_compatibility_check =
            [\<lparr>entry_status = ''UNKNOWN'', entry_self = True, entry_details = None\<rparr>],
          pairwise_compatibility_check = []\<rparr>"
  using C4_self_unknown[of ex_holder "Package ''B''" ex_cfg]
  by (simp add: ex_defs)



text \<open>
  Claim C6. In the self scan a later reported result overwrites the status type, with
  no ranking of the statuses: after the scan of a list that holds a result which is
  not excluded and whose status is not \<^verbatim>\<open>SUCCESS\<close>, the status type is
  \<^verbatim>\<open>'self-'\<close> followed by the lower-cased status value of the last such result in
  scan order, whatever it was before. So when the list of self results of \<open>p\<close> holds
  such a result, \<^verbatim>\<open>get_result(p, p)\<close> returns that status type for the last such
  result of the list.
\<close>

theorem C6_last_failure_wins:
  "(filter (counted cfg) prs \<noteq> [] \<longrightarrow>
      snd (self_scan cfg prs st) =
        ''self-'' @ lower (status_value (status (last (filter (counted cfg) prs))))) \<and>
   (map_of (package_to_results h) p = Some l \<and> filter (counted cfg) l \<noteq> [] \<longrightarrow>
      (\<exists>r. get_result cfg h p p = Inr r \<and>
           status_type r =
             ''self-'' @ lower (status_value (status (last (filter (counted cfg) l))))))"
proof -
  have "snd (self_scan cfg prs st) =
        ''self-'' @ lower (status_value (status (last (filter (counted cfg) prs))))"
    if "filter (counted cfg) prs \<noteq> []"
    using that by (cases st) (simp add: self_scan_eq)
  moreover have "\<exists>r. get_result cfg h p p = Inr r \<and>
           status_type r =
             ''self-'' @ lower (status_value (status (last (filter (counted cfg) l))))"
    if "map_of (package_to_results h) p = Some l \<and> filter (counted cfg) l \<noteq> []"
  proof -
    from that have l: "map_of (package_to_results h) p = Some l"
      and ne: "filter (counted cfg) l \<noteq> []" by simp_all
    show ?thesis using ne by (simp add: get_result_same[OF l])
  qed
  ultimately show ?thesis by blast
qed

theorem C6_last_failure_wins_witness:
  "snd (self_scan ex_cfg
          [ex_result ''C'' INSTALL_ERROR 3, ex_result ''C'' CHECK_WARNING 3,
           ex_result ''C'' INSTALL_ERROR 2] ([], ''self-success'')) = ''self-check_warning'' \<and>
   (\<exists>r. get_result ex_cfg ex_holder (Package ''C'') (Package ''C'') = Inr r \<and>
        status_type r = ''self-check_warning'')"
  using C6_last_failure_wins[of ex_cfg
      "[ex_result ''C'' INSTALL_ERROR 3, ex_result ''C'' CHECK_WARNING 3,
        ex_result ''C'' INSTALL_ERROR 2]" "([], ''self-success'')" ex_holder "Package ''C''"
      "[ex_result ''C'' INSTALL_ERROR 3, ex_result ''C'' CHECK_WARNING 3,
        ex_result ''C'' INSTALL_ERROR 2]"]
  by (simp add: ex_defs counted_def is_py_version_incompatible_def lower_status_value)

text \<open>
  Claim C7. For a package \<open>q\<close> of the index: when \<^verbatim>\<open>get_result(q, r)\<close> returns a
  status type ending in \<^verbatim>\<open>-success\<close> for every other package \<open>r\<close> of the index,
  \<^verbatim>\<open>has_issues(q)\<close> returns \<^verbatim>\<open>False\<close>.
\<close>

theorem C7_no_issues_when_all_success:
  assumes "q \<in> indexed h"
    and "\<forall>r \<in> indexed h. r \<noteq> q \<longrightarrow>
           (\<exists>res. get_result cfg h q r = Inr res \<and> suffix ''-success'' (status_type res))"
  shows "has_issues cfg h q = Inr False"
proof -
  have "has_issues_body cfg h q r = Inr False" if r: "r \<in> indexed h" for r
  proof -
    from r obtain rr where rr: "get_result cfg h r r = Inr rr"
      using get_result_returns_iff[of cfg h r r] by auto
    show ?thesis
    proof (cases "r = q")
      case True
      from assms(1) obtain l where l: "map_of (package_to_results h) q = Some l"
        by (auto simp: indexed_iff)
      show ?thesis
        using True by (simp add: has_issues_body_def get_result_same[OF l])
    next
      case False
      with assms(2) r obtain res where res: "get_result cfg h q r = Inr res"
        and suf: "suffix ''-success'' (status_type res)" by blast
      from False have "q \<noteq> r" by simp
      from get_result_success_pair[OF res this suf] res rr show ?thesis
        by (simp add: has_issues_body_def synthetic_entry_def)
    qed
  qed
  then show ?thesis
    by (simp add: has_issues_def has_issues_loop_False indexed_def)
qed

theorem C7_no_issues_when_all_success_witness:
  "has_issues ex_cfg ex_good_holder (Package ''A'') = Inr False \<and>
   Package ''A'' \<in> indexed ex_good_holder \<and>
   suffix ''-success'' ''pairwise-success'' \<and>
   get_result ex_cfg ex_good_holder (Package ''A'') (Package ''C'') =
     Inr \<lparr>status_type = ''pairwise-success'',
          self_compatibility_check = [],
          pairwise_compatibility_check =
            [\<lparr>entry_status = ''SUCCESS'', entry_self = False, entry_details = None\<rparr>]\<rparr>"
proof -
  have idx: "indexed ex_good_holder = {Package ''A'', Package ''C''}"
    by (simp add: indexed_def ex_good_holder_def)
  have suf: "suffix ''-success'' ''pairwise-success''"
    by (simp add: suffix_def)
  have a: "Package ''A'' \<in> indexed ex_good_holder"
    by (simp add: idx)
  have b: "\<forall>r \<in> indexed ex_good_holder. r \<noteq> Package ''A'' \<longrightarrow>
      (\<exists>res. get_result ex_cfg ex_good_holder (Package ''A'') r = Inr res \<and>
             suffix ''-success'' (status_type res))"
    using suf by (simp add: idx ex_good_get_result_A_C)
  from C7_no_issues_when_all_success[OF a b] a suf ex_good_get_result_A_C
  show ?thesis by simp
qed

text \<open>
  Claim C8. Whatever list of packages \<^verbatim>\<open>get_statistics\<close> is given, the tuple it
  returns has the size of the configured catalogue \<^verbatim>\<open>PKG_LIST\<close> as its first
  component, whatever the argument is; each of the other three counters lies between
  0 and the length of the given list; and the counter of packages needing an update
  is 0. The tuple is returned whenever the holder is complete for its packages and
  the given packages are among them.
\<close>

theorem C8_statistics:
  "(\<forall>t c d u. get_statistics cfg h pkgs = Inr (t, c, d, u) \<longrightarrow>
      t = int (length (PKG_LIST cfg)) \<and>
      0 \<le> c \<and> c \<le> int (length pkgs) \<and>
      0 \<le> d \<and> d \<le> int (length pkgs) \<and>
      u = 0) \<and>
   (index_complete h \<and> set pkgs \<subseteq> indexed h \<longrightarrow>
      (\<exists>t c d u. get_statistics cfg h pkgs = Inr (t, c, d, u)))"
proof -
  have "t = int (length (PKG_LIST cfg)) \<and> 0 \<le> c \<and> c \<le> int (length pkgs) \<and>
        0 \<le> d \<and> d \<le> int (length pkgs) \<and> u = 0"
    if "get_statistics cfg h pkgs = Inr (t, c, d, u)" for t c d u
  proof -
    from that have t: "t = int (length (PKG_LIST cfg))"
      and loop: "statistics_loop cfg h pkgs (0, 0, 0) = Inr (c, d, u)"
      by (auto simp: get_statistics_def split: sum.splits)
    from statistics_loop_bounds[OF loop] t show ?thesis by simp
  qed
  moreover have "\<exists>t c d u. get_statistics cfg h pkgs = Inr (t, c, d, u)"
    if "index_complete h \<and> set pkgs \<subseteq> indexed h"
  proof -
    from that obtain res where "statistics_loop cfg h pkgs (0, 0, 0) = Inr res"
      using statistics_loop_returns[of h pkgs cfg "(0, 0, 0)"] by blast
    then show ?thesis
      by (cases res) (auto simp: get_statistics_def)
  qed
  ultimately show ?thesis by blast
qed

theorem C8_statistics_witness:
  "get_statistics ex_cfg ex_holder [Package ''A'', Package ''B''] = Inr (3, 1, 1, 0) \<and>
   int (length (PKG_LIST ex_cfg)) = 3 \<and>
   int (length [Package ''A'', Package ''B'']) = 2 \<and>
   index_complete ex_holder \<and>
   set [Package ''A'', Package ''B''] \<subseteq> indexed ex_holder"
  using C8_statistics[of ex_cfg ex_holder "[Package ''A'', Package ''B'']"]
    ex_get_statistics ex_index_complete
  by (simp add: ex_indexed ex_cfg_def)

text \<open>
  Claim C9, as stated, fails on a holder whose mappings do not cover its packages:
  \<^verbatim>\<open>__init__\<close> stores the mappings as they are given, and the dependency finder
  is not handed the packages. With \<open>A\<close> and \<open>B\<close> both keys of
  \<^verbatim>\<open>_package_to_results\<close>, \<^verbatim>\<open>get_result(A, B)\<close> raises \<^verbatim>\<open>KeyError\<close> for the
  missing pair, and \<^verbatim>\<open>has_deprecated_deps(B)\<close> for the missing name.
\<close>

theorem C9_counterexample:
  "Package ''A'' \<in> indexed ex_partial_holder \<and>
   Package ''B'' \<in> indexed ex_partial_holder \<and>
   get_result ex_cfg ex_partial_holder (Package ''A'') (Package ''B'') = Inl KeyError \<and>
   has_deprecated_deps ex_partial_holder (Package ''B'') = Inl KeyError"
  by (simp add: indexed_def ex_partial_holder_def ex_result_def get_result_def
      has_deprecated_deps_def self_step_def)

text \<open>
  Claim C9, amended. \<^verbatim>\<open>has_deprecated_deps\<close> raises \<^verbatim>\<open>KeyError\<close> exactly when the
  install name of the package is not a key of \<^verbatim>\<open>deprecated_deps\<close>, that is, not one
  of the names the dependency finder yielded. \<^verbatim>\<open>get_result\<close> raises \<^verbatim>\<open>KeyError\<close>
  exactly when one of the two packages is not a key of \<^verbatim>\<open>_package_to_results\<close> or,
  for two different packages, their pair is not a key of \<^verbatim>\<open>_pairwise_to_results\<close>.
  In every other case they return, and an empty list of results gives an
  \<^verbatim>\<open>UNKNOWN\<close> entry (a self-level one for an empty list of self results, a pairwise
  one for an empty list of pairwise results), not an exception.
\<close>

theorem C9_key_errors_exact:
  "(has_deprecated_deps h p = Inl KeyError \<longleftrightarrow> install_name p \<notin> dom (deprecated_deps h)) \<and>
   (install_name p \<in> dom (deprecated_deps h) \<longrightarrow> (\<exists>b. has_deprecated_deps h p = Inr b)) \<and>
   (deprecated_deps h = get_deprecated_deps found \<longrightarrow>
      (has_deprecated_deps h p = Inl KeyError \<longleftrightarrow> install_name p \<notin> fst ` set found)) \<and>
   (get_result cfg h p1 p2 = Inl KeyError \<longleftrightarrow>
      p1 \<notin> indexed h \<or> p2 \<notin> indexed h \<or>
      (p1 \<noteq> p2 \<and> {p1, p2} \<notin> dom (pairwise_to_results h))) \<and>
   (p1 \<in> indexed h \<and> p2 \<in> indexed h \<and>
    (p1 = p2 \<or> {p1, p2} \<in> dom (pairwise_to_results h)) \<longrightarrow>
      (\<exists>r. get_result cfg h p1 p2 = Inr r)) \<and>
   (p1 \<in> indexed h \<and> p2 \<in> indexed h \<and>
    (p1 = p2 \<or> {p1, p2} \<in> dom (pairwise_to_results h)) \<and>
    (map_of (package_to_results h) p1 = Some [] \<or>
     map_of (package_to_results h) p2 = Some []) \<longrightarrow>
      (\<exists>r. get_result cfg h p1 p2 = Inr r \<and>
           \<lparr>entry_status = ''UNKNOWN'', entry_self = True, entry_details = None\<rparr>
             \<in> set (self_compatibility_check r))) \<and>
   (p1 \<in> indexed h \<and> p2 \<in> indexed h \<and> p1 \<noteq> p2 \<and>
    pairwise_to_results h {p1, p2} = Some [] \<longrightarrow>
      (\<exists>r. get_result cfg h p1 p2 = Inr r \<and>
           pairwise_compatibility_check r =
             [\<lparr>entry_status = ''UNKNOWN'', entry_self = False, entry_details = None\<rparr>]))"
proof -
  have c1: "has_deprecated_deps h p = Inl KeyError \<longleftrightarrow> install_name p \<notin> dom (deprecated_deps h)"
    by (rule has_deprecated_deps_raises_iff)
  have c2: "install_name p \<in> dom (deprecated_deps h) \<longrightarrow> (\<exists>b. has_deprecated_deps h p = Inr b)"
    by (simp add: has_deprecated_deps_returns_iff)
  have c3: "deprecated_deps h = get_deprecated_deps found \<longrightarrow>
      (has_deprecated_deps h p = Inl KeyError \<longleftrightarrow> install_name p \<notin> fst ` set found)"
    by (simp add: has_deprecated_deps_raises_iff get_deprecated_deps_dom)
  have c4: "get_result cfg h p1 p2 = Inl KeyError \<longleftrightarrow>
      p1 \<notin> indexed h \<or> p2 \<notin> indexed h \<or>
      (p1 \<noteq> p2 \<and> {p1, p2} \<notin> dom (pairwise_to_results h))"
    by (rule get_result_raises_iff)
  have c5: "p1 \<in> indexed h \<and> p2 \<in> indexed h \<and>
    (p1 = p2 \<or> {p1, p2} \<in> dom (pairwise_to_results h)) \<longrightarrow>
      (\<exists>r. get_result cfg h p1 p2 = Inr r)"
    by (auto simp: get_result_returns_iff)
  have c6: "\<exists>r. get_result cfg h p1 p2 = Inr r \<and>
                 \<lparr>entry_status = ''UNKNOWN'', entry_self = True, entry_details = None\<rparr>
                   \<in> set (self_compatibility_check r)"
    if h: "p1 \<in> indexed h \<and> p2 \<in> indexed h \<and>
          (p1 = p2 \<or> {p1, p2} \<in> dom (pairwise_to_results h)) \<and>
          (map_of (package_to_results h) p1 = Some [] \<or>
           map_of (package_to_results h) p2 = Some [])"
  proof -
    from h obtain l1 l2 where l1: "map_of (package_to_results h) p1 = Some l1"
      and l2: "map_of (package_to_results h) p2 = Some l2"
      by (auto simp: indexed_iff)
    have e: "l1 = [] \<or> l2 = []" using h l1 l2 by auto
    show ?thesis
    proof (cases "p1 = p2")
      case True
      then have "l2 = []" using e l1 l2 by auto
      then show ?thesis
        using True by (simp add: get_result_same[OF l2] synthetic_entry_def)
    next
      case False
      with h obtain pl where pl: "pairwise_to_results h {p1, p2} = Some pl"
        by auto
      show ?thesis
        using e by (auto simp: get_result_distinct[OF l1 l2 False pl] synthetic_entry_def)
    qed
  qed
  have c7: "\<exists>r. get_result cfg h p1 p2 = Inr r \<and>
                 pairwise_compatibility_check r =
                   [\<lparr>entry_status = ''UNKNOWN'', entry_self = False, entry_details = None\<rparr>]"
    if h: "p1 \<in> indexed h \<and> p2 \<in> indexed h \<and> p1 \<noteq> p2 \<and>
          pairwise_to_results h {p1, p2} = Some []"
  proof -
    from h obtain l1 l2 where l1: "map_of (package_to_results h) p1 = Some l1"
      and l2: "map_of (package_to_results h) p2 = Some l2"
      by (auto simp: indexed_iff)
    from h have ne: "p1 \<noteq> p2" and pl: "pairwise_to_results h {p1, p2} = Some []" by simp_all
    show ?thesis
      by (simp add: get_result_distinct[OF l1 l2 ne pl] synthetic_entry_def)
  qed
  from c1 c2 c3 c4 c5 c6 c7 show ?thesis by blast
qed

theorem C9_key_errors_exact_witness:
  "has_deprecated_deps ex_holder (Package ''D'') = Inl KeyError \<and>
   install_name (Package ''D'') \<notin> dom (deprecated_deps ex_holder) \<and>
   get_result ex_cfg ex_holder (Package ''A'') (Package ''D'') = Inl KeyError \<and>
   Package ''D'' \<notin> indexed ex_holder \<and>
   (\<exists>b. has_deprecated_deps ex_holder (Package ''B'') = Inr b) \<and>
   Package ''A'' \<in> indexed ex_holder \<and> Package ''B'' \<in> indexed ex_holder \<and>
   pairwise_to_results ex_holder {Package ''A'', Package ''B''} = Some [] \<and>
   (\<exists>r. get_result ex_cfg ex_holder (Package ''A'') (Package ''B'') = Inr r \<and>
        \<lparr>entry_status = ''UNKNOWN'', entry_self = True, entry_details = None\<rparr>
          \<in> set (self_compatibility_check r)) \<and>
   (\<exists>r. get_result ex_cfg ex_holder (Package ''A'') (Package ''B'') = Inr r \<and>
        pairwise_compatibility_check r =
          [\<lparr>entry_status = ''UNKNOWN'', entry_self = False, entry_details = None\<rparr>])"
proof -
  have d: "install_name (Package ''D'') \<notin> dom (deprecated_deps ex_holder)"
    by (simp add: ex_holder_def)
  have b: "install_name (Package ''B'') \<in> dom (deprecated_deps ex_holder)"
    by (simp add: ex_holder_def)
  have i: "Package ''D'' \<notin> indexed ex_holder" "Package ''A'' \<in> indexed ex_holder"
    "Package ''B'' \<in> indexed ex_holder"
    by (simp_all add: ex_indexed)
  have pl: "pairwise_to_results ex_holder {Package ''A'', Package ''B''} = Some []"
    by (simp add: ex_holder_def doubleton_eq_iff)
  have e: "map_of (package_to_results ex_holder) (Package ''B'') = Some []"
    by (simp add: ex_holder_def)
  note t1 = C9_key_errors_exact[of ex_holder "Package ''D''" "[]" ex_cfg "Package ''A''" "Package ''D''"]
  note t2 = C9_key_errors_exact[of ex_holder "Package ''B''" "[]" ex_cfg "Package ''A''" "Package ''B''"]
  from t1 d i have x1: "has_deprecated_deps ex_holder (Package ''D'') = Inl KeyError"
    and x2: "get_result ex_cfg ex_holder (Package ''A'') (Package ''D'') = Inl KeyError"
    by blast+
  from t2 b have x3: "\<exists>b. has_deprecated_deps ex_holder (Package ''B'') = Inr b"
    by blast
  have dm: "{Package ''A'', Package ''B''} \<in> dom (pairwise_to_results ex_holder)"
    using pl by blast
  have ne: "Package ''A'' \<noteq> Package ''B''" by simp
  from t2 i dm e have x4: "\<exists>r. get_result ex_cfg ex_holder (Package ''A'') (Package ''B'') = Inr r \<and>
        \<lparr>entry_status = ''UNKNOWN'', entry_self = True, entry_details = None\<rparr>
          \<in> set (self_compatibility_check r)"
    by blast
  from t2 i ne pl have x5: "\<exists>r. get_result ex_cfg ex_holder (Package ''A'') (Package ''B'') = Inr r \<and>
        pairwise_compatibility_check r =
          [\<lparr>entry_status = ''UNKNOWN'', entry_self = False, entry_details = None\<rparr>]"
    by blast
  from x1 x2 x3 x4 x5 d i pl show ?thesis by blast
qed

text \<open>
  Claim C10. When the self check of \<open>q\<close> returned by \<^verbatim>\<open>get_result(q, q)\<close> has no
  entry equal to \<^verbatim>\<open>SELF_SUCCESS\<close>, which is the case when the list of self results
  of \<open>q\<close> is empty, the turn of the loop of \<^verbatim>\<open>has_issues(p)\<close> for
  \<^verbatim>\<open>package_2 = q\<close> never returns \<^verbatim>\<open>True\<close>, whatever the pairwise entries of
  \<open>p\<close> and \<open>q\<close> are: if \<^verbatim>\<open>has_issues(p)\<close> returns \<^verbatim>\<open>True\<close>, the turn of another
  package of the index did.
\<close>

theorem C10_self_conflicted_not_blamed:
  "(self_conflicted cfg h q \<longrightarrow>
      has_issues_body cfg h p q \<noteq> Inr True \<and>
      (has_issues cfg h p = Inr True \<longrightarrow>
         (\<exists>q' \<in> indexed h. q' \<noteq> q \<and> has_issues_body cfg h p q' = Inr True))) \<and>
   (map_of (package_to_results h) q = Some [] \<longrightarrow> self_conflicted cfg h q)"
proof -
  have body: "has_issues_body cfg h p q \<noteq> Inr True" if "self_conflicted cfg h q"
    using that
    by (auto simp: self_conflicted_def has_issues_body_def pair_res_loop_iff
        split: sum.splits)
  have "\<exists>q' \<in> indexed h. q' \<noteq> q \<and> has_issues_body cfg h p q' = Inr True"
    if c: "self_conflicted cfg h q" and t: "has_issues cfg h p = Inr True"
  proof -
    from t obtain q' where q': "q' \<in> indexed h" "has_issues_body cfg h p q' = Inr True"
      using has_issues_loop_TrueD[of cfg h p "map fst (package_to_results h)"]
      by (auto simp: has_issues_def indexed_def)
    with body[OF c] have "q' \<noteq> q" by auto
    with q' show ?thesis by blast
  qed
  moreover have "self_conflicted cfg h q" if "map_of (package_to_results h) q = Some []"
    by (simp add: self_conflicted_def get_result_same[OF that] SELF_SUCCESS_def
        synthetic_entry_def)
  ultimately show ?thesis using body by blast
qed

theorem C10_self_conflicted_not_blamed_witness:
  "self_conflicted ex_cfg ex_holder (Package ''B'') \<and>
   map_of (package_to_results ex_holder) (Package ''B'') = Some [] \<and>
   has_issues_body ex_cfg ex_holder (Package ''C'') (Package ''B'') \<noteq> Inr True \<and>
   pairwise_to_results ex_holder {Package ''C'', Package ''B''} =
     Some [ex_result ''B'' CHECK_WARNING 3]"
proof -
  have e: "map_of (package_to_results ex_holder) (Package ''B'') = Some []"
    by (simp add: ex_defs)
  have p: "pairwise_to_results ex_holder {Package ''C'', Package ''B''} =
     Some [ex_result ''B'' CHECK_WARNING 3]"
    by (simp add: ex_defs doubleton_eq_iff)
  from C10_self_conflicted_not_blamed[of ex_cfg ex_holder "Package ''B''" "Package ''C''"] e p
  show ?thesis by simp
qed

end
